theory Spec2Isabelle
  imports Complex_Main
begin

section \<open>Errors\<close>

text \<open>
  Every \<^verbatim>\<open>raise_if_not\<close> of the scorer module raises a Python \<^verbatim>\<open>ValueError\<close>;
  the sites differ in their message only. The model keeps one tag for each message
  so that two failures can be told apart.
\<close>

datatype vkind =
    WindowNotPositive
  | WindowAggNotBool
  | BadDiffFn
  | NotFitted
  | SingleSeriesUnsupported
  | NotATimeSeries
  | AnomaliesNotUnivariate
  | WindowTooLarge
  | WidthMismatch
  | NotStochastic
  | SequenceLengthMismatch
  | EmptyIntersection
  | ShapeMismatch

datatype error =
    ValueError vkind
  | TypeError
  | IndexError
  | AttributeError
  | NotImplementedError

definition raise_if_not :: "bool \<Rightarrow> vkind \<Rightarrow> error + unit" where
  "raise_if_not c k = (if c then Inr () else Inl (ValueError k))"

section \<open>The series container\<close>

text \<open>
  Modelled from the spec: the class \<^verbatim>\<open>TimeSeries\<close> is not under src/. A series
  carries its time index and an array of values of shape (time, component, sample).
  Time stamps are integers and values are real numbers; component labels are not part
  of the model.
\<close>

record TimeSeries =
  time_index :: "int list"
  all_values :: "real list list list"

text \<open>Modelled from the spec: \<^verbatim>\<open>len(series)\<close>, the number of time steps.\<close>

definition len :: "TimeSeries \<Rightarrow> nat" where
  "len s = length (all_values s)"

text \<open>
  Modelled from the spec: \<^verbatim>\<open>series.width\<close>, the number of components. The model
  reads it off the first time step, so a series without time steps has width 0 here.
\<close>

definition width :: "TimeSeries \<Rightarrow> nat" where
  "width s = (case all_values s of [] \<Rightarrow> 0 | r # _ \<Rightarrow> length r)"

text \<open>Modelled from the spec: \<^verbatim>\<open>series.n_samples\<close>, the number of samples of a cell.\<close>

definition n_samples :: "TimeSeries \<Rightarrow> nat" where
  "n_samples s = (case all_values s of (c # _) # _ \<Rightarrow> length c | _ \<Rightarrow> 0)"

text \<open>Modelled from the spec: \<^verbatim>\<open>series.is_deterministic\<close>, one sample.\<close>

definition is_deterministic :: "TimeSeries \<Rightarrow> bool" where
  "is_deterministic s = (n_samples s = 1)"

text \<open>Modelled from the spec: \<^verbatim>\<open>series.is_stochastic\<close>, more than one sample.\<close>

definition is_stochastic :: "TimeSeries \<Rightarrow> bool" where
  "is_stochastic s = (n_samples s > 1)"

text \<open>
  The invariant of the container: one row of values for each time stamp, a strictly
  increasing time index, and a rectangular array.
\<close>

definition has_shape :: "nat \<Rightarrow> nat \<Rightarrow> real list list \<Rightarrow> bool" where
  "has_shape C S v = (length v = C \<and> list_all (\<lambda>c. length c = S) v)"

definition wf_series :: "TimeSeries \<Rightarrow> bool" where
  "wf_series s =
     (length (time_index s) = length (all_values s) \<and>
      sorted_wrt (<) (time_index s) \<and>
      list_all (has_shape (width s) (n_samples s)) (all_values s))"

text \<open>
  Modelled from the spec: \<^verbatim>\<open>TimeSeries.from_times_and_values\<close> is not under src/.
  It builds a series over the given time index from an array of values and needs one
  row of values for each time stamp.
\<close>

definition from_times_and_values ::
    "int list \<Rightarrow> real list list list \<Rightarrow> error + TimeSeries" where
  "from_times_and_values tms vals =
     (if length tms = length vals
      then Inr \<lparr>time_index = tms, all_values = vals\<rparr>
      else Inl (ValueError ShapeMismatch))"

text \<open>Python's slice \<^verbatim>\<open>xs[lo:hi]\<close> for arbitrary integer bounds.\<close>

definition slice_bound :: "nat \<Rightarrow> int \<Rightarrow> nat" where
  "slice_bound n k = (if k < 0 then nat (max 0 (int n + k)) else min (nat k) n)"

definition py_slice :: "'a list \<Rightarrow> int \<Rightarrow> int \<Rightarrow> 'a list" where
  "py_slice xs lo hi =
     (let l = slice_bound (length xs) lo; h = slice_bound (length xs) hi
      in take (h - l) (drop l xs))"

text \<open>Python's \<^verbatim>\<open>xs[lo:]\<close>.\<close>

definition py_slice_from :: "'a list \<Rightarrow> int \<Rightarrow> 'a list" where
  "py_slice_from xs lo = drop (slice_bound (length xs) lo) xs"

text \<open>Python's \<^verbatim>\<open>xs[0]\<close>.\<close>

fun first :: "'a list \<Rightarrow> error + 'a" where
  "first (x # rest) = Inr x"
| "first [] = Inl IndexError"

text \<open>
  Python's \<^verbatim>\<open>zip(*rows)\<close>: the columns of a list of rows, as many as the shortest
  row has entries.
\<close>

definition zip_star :: "'a list list \<Rightarrow> 'a list list" where
  "zip_star rows =
     (case rows of
        [] \<Rightarrow> []
      | r # rs \<Rightarrow> map (\<lambda>t. map (\<lambda>x. x ! t) rows) [0..<fold min (map length rs) (length r)])"

text \<open>Sequencing of fallible steps: the first failure is the result.\<close>

definition and_then :: "error + 'a \<Rightarrow> ('a \<Rightarrow> error + 'b) \<Rightarrow> error + 'b" where
  "and_then m f = (case m of Inl e \<Rightarrow> Inl e | Inr x \<Rightarrow> f x)"

text \<open>Running a fallible function over a list stops at the first failure.\<close>

fun mapM :: "('a \<Rightarrow> error + 'b) \<Rightarrow> 'a list \<Rightarrow> error + 'b list" where
  "mapM f [] = Inr []"
| "mapM f (x # xs) =
     (case f x of
        Inl e \<Rightarrow> Inl e
      | Inr y \<Rightarrow> (case mapM f xs of Inl e \<Rightarrow> Inl e | Inr ys \<Rightarrow> Inr (y # ys)))"

section \<open>Window aggregation\<close>

text \<open>
  \<^verbatim>\<open>ndarray.mean(axis=0)\<close> of an array of shape (k, component, sample): the
  element-wise sum of the k rows, divided by k. numpy gives NaN for k = 0; the model
  has no NaN and gives the empty array there.
\<close>

definition add_rows :: "real list list \<Rightarrow> real list list \<Rightarrow> real list list" where
  "add_rows a b = map2 (map2 (+)) a b"

definition sum_axis0 :: "real list list list \<Rightarrow> real list list" where
  "sum_axis0 vs = (case vs of [] \<Rightarrow> [] | v # rest \<Rightarrow> foldl add_rows v rest)"

definition mean_axis0 :: "real list list list \<Rightarrow> real list list" where
  "mean_axis0 vs = map (map (\<lambda>x. x / real (length vs))) (sum_axis0 vs)"

text \<open>
  \<^verbatim>\<open>_fun_window_agg\<close> (leading underscores of the source's names are dropped
  throughout). The body of its outer loop, for one score series, is \<open>window_agg_one\<close>:
  the value at \<^verbatim>\<open>idx_point\<close> is the mean over axis 0 of the rows
  \<^verbatim>\<open>[idx_point : idx_point + window]\<close>, and the result keeps the time index.
\<close>

definition window_agg_one :: "int \<Rightarrow> TimeSeries \<Rightarrow> error + TimeSeries" where
  "window_agg_one w score =
     from_times_and_values (time_index score)
       (map (\<lambda>idx_point.
               mean_axis0 (py_slice (all_values score) (int idx_point) (int idx_point + w)))
            [0..<len score])"

definition fun_window_agg :: "TimeSeries list \<Rightarrow> int \<Rightarrow> error + TimeSeries list" where
  "fun_window_agg list_scores w = mapM (window_agg_one w) list_scores"

section \<open>Python objects, scorer state\<close>

text \<open>
  The public methods take either one series or a list of series. The model's objects
  are series and (nested) lists of objects; tuples and other sequence types are not
  modelled.
\<close>

datatype pyobj = TS TimeSeries | PyList "pyobj list"

definition isinstance_Sequence :: "pyobj \<Rightarrow> bool" where
  "isinstance_Sequence obj = (case obj of TS _ \<Rightarrow> False | PyList _ \<Rightarrow> True)"

definition isinstance_list :: "pyobj \<Rightarrow> bool" where
  "isinstance_list obj = (case obj of TS _ \<Rightarrow> False | PyList _ \<Rightarrow> True)"

text \<open>
  Modelled from the spec: \<^verbatim>\<open>series2seq\<close> is not under src/. It wraps a single series
  into a list and leaves anything else as it is.
\<close>

definition series2seq :: "pyobj \<Rightarrow> pyobj list" where
  "series2seq obj = (case obj of TS s \<Rightarrow> [TS s] | PyList xs \<Rightarrow> xs)"

text \<open>
  Modelled from the spec: \<^verbatim>\<open>_assert_timeseries\<close> is not under src/. It fails on
  anything that is not a series (the model returns the series it has checked).
\<close>

definition assert_timeseries :: "pyobj \<Rightarrow> error + TimeSeries" where
  "assert_timeseries obj =
     (case obj of TS s \<Rightarrow> Inr s | PyList _ \<Rightarrow> Inl (ValueError NotATimeSeries))"

text \<open>Reading an attribute of a series from an object: a list has none.\<close>

definition attr_series :: "pyobj \<Rightarrow> error + TimeSeries" where
  "attr_series obj = (case obj of TS s \<Rightarrow> Inr s | PyList _ \<Rightarrow> Inl AttributeError)"

text \<open>
  Modelled from the spec: indexing a series is not under src/. Indexed with an integer
  a series gives the series of that single time step.
\<close>

definition single_steps :: "TimeSeries \<Rightarrow> TimeSeries list" where
  "single_steps s =
     map (\<lambda>(t, v). \<lparr>time_index = [t], all_values = [v]\<rparr>) (zip (time_index s) (all_values s))"

text \<open>
  Iterating an object in a \<^verbatim>\<open>for\<close> loop: a list yields its elements. A series has
  no iterator of its own, so Python indexes it with 0, 1, 2, ... up to its length.
\<close>

definition py_iter :: "pyobj \<Rightarrow> pyobj list" where
  "py_iter obj = (case obj of PyList xs \<Rightarrow> xs | TS s \<Rightarrow> map TS (single_steps s))"

text \<open>
  The trained model is opaque. After a component-wise fit the attribute holds a list
  of models, one for each component.
\<close>

datatype 'm model_obj = Model 'm | Models "'m list"

text \<open>
  The attributes of a scorer instance. \<^verbatim>\<open>_fit_called\<close> is \<^verbatim>\<open>None\<close> for a scorer
  that is not fittable; \<^verbatim>\<open>width_trained_on\<close> does not exist before the first call of
  \<^verbatim>\<open>fit\<close>. \<open>is_probabilistic\<close> is the property of that name, which reads
  \<^verbatim>\<open>_is_probabilistic\<close> (the likelihood scorer overrides it with the same value,
  true). \<^verbatim>\<open>component_wise\<close> and \<^verbatim>\<open>model\<close> are the attributes that the concrete
  windowed scorers set.
\<close>

record 'm scorer =
  window :: int
  univariate_scorer :: bool
  fittable :: bool
  fit_called :: "bool option"
  is_probabilistic :: bool
  diff_fn :: string
  window_agg :: bool
  single_series_support :: bool
  n_jobs :: int
  width_trained_on :: "nat option"
  component_wise :: bool
  model :: "'m model_obj"

text \<open>
  \<^verbatim>\<open>AnomalyScorer.__init__\<close>. The window is an integer by its type here, so the
  check of its type has no branch. \<^verbatim>\<open>window_agg\<close> is \<^verbatim>\<open>Optional[bool]\<close>.
  The last two arguments stand for what the concrete subclass stores.
\<close>

definition scorer_init ::
    "bool \<Rightarrow> bool \<Rightarrow> bool \<Rightarrow> bool \<Rightarrow> bool option \<Rightarrow> int \<Rightarrow> string \<Rightarrow> int \<Rightarrow>
       bool \<Rightarrow> 'm model_obj \<Rightarrow> error + 'm scorer" where
  "scorer_init univariate_scorer' fittable' single_series_support' probabilistic_support
       window_agg' window' diff_fn' n_jobs' component_wise' model' =
     and_then (raise_if_not (window' > 0) WindowNotPositive) (\<lambda>_.
     if diff_fn' \<notin> {''abs_diff'', ''diff''} then Inl (ValueError BadDiffFn)
     else (case window_agg' of
             None \<Rightarrow> Inl (ValueError WindowAggNotBool)
           | Some agg \<Rightarrow>
               Inr \<lparr>window = window',
                    univariate_scorer = univariate_scorer',
                    fittable = fittable',
                    fit_called = (if fittable' then Some False else None),
                    is_probabilistic = probabilistic_support,
                    diff_fn = diff_fn',
                    window_agg = agg,
                    single_series_support = single_series_support',
                    n_jobs = n_jobs',
                    width_trained_on = None,
                    component_wise = component_wise',
                    model = model'\<rparr>))"

text \<open>\<^verbatim>\<open>FittableAnomalyScorer.__init__\<close>.\<close>

definition fittable_scorer_init ::
    "bool \<Rightarrow> bool \<Rightarrow> bool \<Rightarrow> bool option \<Rightarrow> int \<Rightarrow> string \<Rightarrow> int \<Rightarrow>
       bool \<Rightarrow> 'm model_obj \<Rightarrow> error + 'm scorer" where
  "fittable_scorer_init univariate_scorer' single_series_support' probabilistic_support
       window_agg' window' diff_fn' n_jobs' component_wise' model' =
     scorer_init univariate_scorer' True single_series_support' probabilistic_support
       window_agg' window' diff_fn' n_jobs' component_wise' model'"

text \<open>\<^verbatim>\<open>NLLScorer.__init__\<close>.\<close>

definition nll_scorer_init ::
    "int \<Rightarrow> string \<Rightarrow> int \<Rightarrow> bool \<Rightarrow> 'm model_obj \<Rightarrow> error + 'm scorer" where
  "nll_scorer_init window' diff_fn' n_jobs' window_agg' model' =
     scorer_init False False False True (Some window_agg') window' diff_fn' n_jobs'
       False model'"

section \<open>Checks shared by the public methods\<close>

definition check_univariate_scorer :: "'m scorer \<Rightarrow> pyobj list \<Rightarrow> error + unit" where
  "check_univariate_scorer self actual_anomalies =
     (if univariate_scorer self then
        and_then (raise_if_not
                    (list_all (\<lambda>s. case s of TS _ \<Rightarrow> True | PyList _ \<Rightarrow> False) actual_anomalies)
                    NotATimeSeries) (\<lambda>_.
        and_then (mapM attr_series actual_anomalies) (\<lambda>ss.
        raise_if_not (list_all (\<lambda>s. width s = 1) ss) AnomaliesNotUnivariate))
      else Inr ())"

definition check_window_size :: "'m scorer \<Rightarrow> TimeSeries \<Rightarrow> error + unit" where
  "check_window_size self series = raise_if_not (window self \<le> int (len series)) WindowTooLarge"

definition assert_stochastic :: "TimeSeries \<Rightarrow> error + unit" where
  "assert_stochastic series = raise_if_not (is_stochastic series) NotStochastic"

text \<open>
  The quantile of a list of samples, which for 0.5 is the median: it interpolates
  linearly between the two nearest order statistics, as \<^verbatim>\<open>numpy.quantile\<close> does.
  A cell without samples does not occur in a series; the model gives 0 there.
\<close>

definition quantile_list :: "real \<Rightarrow> real list \<Rightarrow> real" where
  "quantile_list q xs =
     (let srt = sort xs;
          pos = q * real (length srt - 1);
          lo = nat \<lfloor>pos\<rfloor>;
          hi = nat \<lceil>pos\<rceil>
      in if srt = [] then 0
         else srt ! lo + (pos - real lo) * (srt ! hi - srt ! lo))"

text \<open>
  Modelled from the spec: \<^verbatim>\<open>TimeSeries.quantile_timeseries\<close> is not under src/. It
  replaces the samples of every (time, component) cell by their quantile.
\<close>

definition quantile_timeseries :: "real \<Rightarrow> TimeSeries \<Rightarrow> TimeSeries" where
  "quantile_timeseries q s =
     \<lparr>time_index = time_index s,
      all_values = map (map (\<lambda>samples. [quantile_list q samples])) (all_values s)\<rparr>"

text \<open>
  \<^verbatim>\<open>_extract_deterministic\<close>. Its effect on the logger is the second component of the
  result: the warnings emitted, each with the name of the series and the number of
  samples found. The callers below are modelled by their return value and keep the
  first component only.
\<close>

datatype log_entry = Warning string nat

definition extract_deterministic :: "TimeSeries \<Rightarrow> string \<Rightarrow> TimeSeries \<times> log_entry list" where
  "extract_deterministic series name_series =
     (if \<not> is_deterministic series
      then (quantile_timeseries (1 / 2) series, [Warning name_series (n_samples series)])
      else (series, []))"

definition check_if_fit_called :: "'m scorer \<Rightarrow> error + unit" where
  "check_if_fit_called self = raise_if_not (fit_called self = Some True) NotFitted"

text \<open>The decorator \<^verbatim>\<open>_check_single_series_support\<close>, as a guard.\<close>

definition check_single_series_support :: "'m scorer \<Rightarrow> error + unit" where
  "check_single_series_support self =
     raise_if_not (single_series_support self) SingleSeriesUnsupported"

definition check_probabilistic_series :: "'m scorer \<Rightarrow> pyobj list \<Rightarrow> error + TimeSeries list" where
  "check_probabilistic_series self pred_series =
     mapM (\<lambda>obj. and_then (attr_series obj) (\<lambda>series.
             if is_probabilistic self
             then and_then (assert_stochastic series) (\<lambda>_. Inr series)
             else Inr (fst (extract_deterministic series ''pred_series''))))
          pred_series"

section \<open>Combining two series\<close>

text \<open>
  Modelled from the spec: \<^verbatim>\<open>TimeSeries.slice_intersect\<close> is not under src/. It
  restricts a series to the time stamps it shares with another one.
\<close>

definition slice_intersect :: "TimeSeries \<Rightarrow> TimeSeries \<Rightarrow> TimeSeries" where
  "slice_intersect a b =
     (let keep = filter (\<lambda>(t, v). t \<in> set (time_index b)) (zip (time_index a) (all_values a))
      in \<lparr>time_index = map fst keep, all_values = map snd keep\<rparr>)"

text \<open>
  Modelled from the spec: \<^verbatim>\<open>_intersect\<close> is not under src/. It restricts each of two
  series to their common time stamps and fails when there is none.
\<close>

definition intersect :: "TimeSeries \<Rightarrow> TimeSeries \<Rightarrow> error + TimeSeries \<times> TimeSeries" where
  "intersect series_1 series_2 =
     (let new_series_1 = slice_intersect series_1 series_2
      in if len new_series_1 = 0 then Inl (ValueError EmptyIntersection)
         else Inr (new_series_1, slice_intersect series_2 series_1))"

text \<open>
  Modelled from the spec: \<^verbatim>\<open>_sanity_check_two_series\<close> is not under src/. It
  requires equal widths and a common time stamp.
\<close>

definition sanity_check_two_series :: "TimeSeries \<Rightarrow> TimeSeries \<Rightarrow> error + unit" where
  "sanity_check_two_series series_1 series_2 =
     and_then (raise_if_not (width series_1 = width series_2) WidthMismatch) (\<lambda>_.
     raise_if_not (\<exists>t \<in> set (time_index series_1). t \<in> set (time_index series_2))
       EmptyIntersection)"

text \<open>
  Modelled from the spec: \<^verbatim>\<open>_assert_same_length\<close> is not under src/. It fails when
  two sequences of series differ in length.
\<close>

definition assert_same_length :: "'a list \<Rightarrow> 'b list \<Rightarrow> error + unit" where
  "assert_same_length list_1 list_2 =
     raise_if_not (length list_1 = length list_2) SequenceLengthMismatch"

text \<open>The shape of an array, as the lengths of its rows and cells.\<close>

definition shape :: "real list list list \<Rightarrow> nat list list" where
  "shape vs = map (map length) vs"

text \<open>
  Modelled from the spec: the subtraction of two series is not under src/. It is
  element-wise, needs equal shapes and keeps the time index of the left operand.
\<close>

definition ts_sub :: "TimeSeries \<Rightarrow> TimeSeries \<Rightarrow> error + TimeSeries" where
  "ts_sub a b =
     (if shape (all_values a) = shape (all_values b)
      then Inr \<lparr>time_index = time_index a,
                all_values = map2 (map2 (map2 (-))) (all_values a) (all_values b)\<rparr>
      else Inl (ValueError ShapeMismatch))"

text \<open>
  Modelled from the spec: \<^verbatim>\<open>TimeSeries.map\<close> is not under src/. It applies a function
  to every value.
\<close>

definition ts_map :: "(real \<Rightarrow> real) \<Rightarrow> TimeSeries \<Rightarrow> TimeSeries" where
  "ts_map f s = \<lparr>time_index = time_index s, all_values = map (map (map f)) (all_values s)\<rparr>"

text \<open>
  Modelled from the spec: the negation of a series is not under src/. It negates every
  value.
\<close>

definition ts_neg :: "TimeSeries \<Rightarrow> TimeSeries" where
  "ts_neg s = ts_map uminus s"

text \<open>\<^verbatim>\<open>_diff_series\<close>.\<close>

definition diff_series :: "'m scorer \<Rightarrow> TimeSeries \<Rightarrow> TimeSeries \<Rightarrow> error + TimeSeries" where
  "diff_series self series_1 series_2 =
     and_then (intersect series_1 series_2) (\<lambda>(s1, s2).
       if diff_fn self = ''abs_diff'' then and_then (ts_sub s1 s2) (\<lambda>d. Inr (ts_map abs d))
       else if diff_fn self = ''diff'' then ts_sub s1 s2
       else Inl (ValueError BadDiffFn))"

section \<open>The public methods of the base class\<close>

text \<open>
  The hooks \<^verbatim>\<open>_score_core\<close>, \<^verbatim>\<open>_score_core_from_prediction\<close> and \<^verbatim>\<open>_fit_core\<close>
  belong to the subclass; the methods of the base class take them as arguments. A fit
  hook returns the trained model, the only attribute that the fit hook of the source
  assigns. In the base class itself the three hooks raise \<^verbatim>\<open>NotImplementedError\<close>.
\<close>

type_synonym 'm score_hook = "'m scorer \<Rightarrow> TimeSeries \<Rightarrow> error + TimeSeries"
type_synonym 'm pair_hook = "'m scorer \<Rightarrow> TimeSeries \<Rightarrow> TimeSeries \<Rightarrow> error + TimeSeries"
type_synonym 'm fit_hook = "'m scorer \<Rightarrow> pyobj list \<Rightarrow> error + 'm model_obj"

definition base_score_core :: "'m score_hook" where
  "base_score_core self series = Inl NotImplementedError"

definition base_score_core_from_prediction :: "'m pair_hook" where
  "base_score_core_from_prediction self actual_series pred_series = Inl NotImplementedError"


text \<open>The result of a scoring method: one series, or a list of them.\<close>

definition result_of :: "bool \<Rightarrow> TimeSeries list \<Rightarrow> pyobj" where
  "result_of single anomaly_scores =
     (if length anomaly_scores = 1 \<and> single then TS (hd anomaly_scores)
      else PyList (map TS anomaly_scores))"

text \<open>\<^verbatim>\<open>AnomalyScorer.score\<close>.\<close>

definition score :: "'m scorer \<Rightarrow> 'm score_hook \<Rightarrow> pyobj \<Rightarrow> error + pyobj" where
  "score self score_core series =
     and_then (check_single_series_support self) (\<lambda>_.
     and_then (check_if_fit_called self) (\<lambda>_.
     and_then (mapM (\<lambda>obj. and_then (assert_timeseries obj) (\<lambda>s.
                       and_then (check_window_size self s) (\<lambda>_. Inr s)))
                 (series2seq series)) (\<lambda>list_series.
     and_then (mapM (score_core self)
                 (map (\<lambda>s. fst (extract_deterministic s ''series'')) list_series))
       (\<lambda>anomaly_scores.
          Inr (result_of (\<not> isinstance_Sequence series) anomaly_scores)))))"

text \<open>The local function \<^verbatim>\<open>_check_ts_or_list_ts\<close> of \<^verbatim>\<open>score_from_prediction\<close>.\<close>

definition check_ts_or_list_ts :: "pyobj \<Rightarrow> pyobj \<Rightarrow> error + unit" where
  "check_ts_or_list_ts actual_series inp =
     and_then (mapM assert_timeseries
                 (if \<not> isinstance_list actual_series then [inp] else py_iter inp))
       (\<lambda>_. Inr ())"

text \<open>The body of the loop over the pairs in \<^verbatim>\<open>score_from_prediction\<close>.\<close>

definition score_pair ::
    "'m scorer \<Rightarrow> 'm score_hook \<Rightarrow> 'm pair_hook \<Rightarrow> TimeSeries \<times> TimeSeries \<Rightarrow> error + TimeSeries"
  where
  "score_pair self score_core score_core_from_prediction p =
     (case p of (s1, s2) \<Rightarrow>
        and_then (sanity_check_two_series s1 s2) (\<lambda>_.
        and_then (intersect s1 s2) (\<lambda>(s1', s2').
        and_then (check_window_size self s1') (\<lambda>_.
        and_then (check_window_size self s2') (\<lambda>_.
          if single_series_support self
          then and_then (diff_series self s1' s2') (score_core self)
          else score_core_from_prediction self s1' s2')))))"

text \<open>\<^verbatim>\<open>AnomalyScorer.score_from_prediction\<close>.\<close>

definition score_from_prediction ::
    "'m scorer \<Rightarrow> 'm score_hook \<Rightarrow> 'm pair_hook \<Rightarrow> pyobj \<Rightarrow> pyobj \<Rightarrow> error + pyobj" where
  "score_from_prediction self score_core score_core_from_prediction actual_series pred_series =
     and_then (if fittable self then check_if_fit_called self else Inr ()) (\<lambda>_.
     and_then (check_ts_or_list_ts actual_series actual_series) (\<lambda>_.
     and_then (check_ts_or_list_ts actual_series pred_series) (\<lambda>_.
     and_then (mapM (\<lambda>obj. and_then (attr_series obj) (\<lambda>s.
                       Inr (fst (extract_deterministic s ''actual_series''))))
                 (series2seq actual_series)) (\<lambda>list_actual_series.
     and_then (check_probabilistic_series self (series2seq pred_series)) (\<lambda>list_pred_series.
     and_then (assert_same_length list_actual_series list_pred_series) (\<lambda>_.
     and_then (mapM (score_pair self score_core score_core_from_prediction)
                 (zip list_actual_series list_pred_series)) (\<lambda>anomaly_scores.
       Inr (result_of (\<not> isinstance_Sequence pred_series \<and> \<not> isinstance_Sequence actual_series)
              anomaly_scores))))))))"

text \<open>
  \<^verbatim>\<open>AnomalyScorer.fit\<close>. The loop over \<^verbatim>\<open>enumerate(list_series)\<close> is \<open>fit_loop\<close>; it
  returns the scorer as the loop leaves it, also when it fails. The assignment
  \<^verbatim>\<open>s = self._extract_deterministic(s, "series")\<close> binds the loop variable \<open>s'\<close>, which
  nothing reads afterwards; the hook receives \<^verbatim>\<open>list_series\<close>.
\<close>

fun fit_loop :: "'m scorer \<Rightarrow> nat \<Rightarrow> pyobj list \<Rightarrow> (error + unit) \<times> 'm scorer" where
  "fit_loop self idx [] = (Inr (), self)"
| "fit_loop self idx (obj # rest) =
     (case assert_timeseries obj of
        Inl e \<Rightarrow> (Inl e, self)
      | Inr s \<Rightarrow>
          (case (if idx = 0 then (Inr (), self\<lparr>width_trained_on := Some (width s)\<rparr>)
                 else ((case width_trained_on self of
                          None \<Rightarrow> Inl AttributeError
                        | Some w \<Rightarrow> raise_if_not (width s = w) WidthMismatch), self)) of
             (Inl e, self1) \<Rightarrow> (Inl e, self1)
           | (Inr _, self1) \<Rightarrow>
               (case check_window_size self1 s of
                  Inl e \<Rightarrow> (Inl e, self1)
                | Inr _ \<Rightarrow>
                    (let s' = fst (extract_deterministic s ''series'')
                     in fit_loop self1 (idx + 1) rest))))"

definition fit :: "'m scorer \<Rightarrow> 'm fit_hook \<Rightarrow> pyobj \<Rightarrow> (error + unit) \<times> 'm scorer" where
  "fit self fit_core series =
     (case check_single_series_support self of
        Inl e \<Rightarrow> (Inl e, self)
      | Inr _ \<Rightarrow>
          (let list_series = series2seq series
           in case fit_loop self 0 list_series of
                (Inl e, self1) \<Rightarrow> (Inl e, self1)
              | (Inr _, self1) \<Rightarrow>
                  (case fit_core self1 list_series of
                     Inl e \<Rightarrow> (Inl e, self1)
                   | Inr m \<Rightarrow> (Inr (), self1\<lparr>model := m, fit_called := Some True\<rparr>))))"


text \<open>
  \<^verbatim>\<open>eval_metric\<close> and \<^verbatim>\<open>eval_metric_from_prediction\<close>. The metric function
  \<^verbatim>\<open>eval_metric_from_scores\<close> is external and is an argument: it takes the ground
  truth, the scores, a window and the name of the metric.
\<close>

type_synonym 'r metric_fn = "pyobj list \<Rightarrow> pyobj \<Rightarrow> int \<Rightarrow> string \<Rightarrow> error + 'r"

definition eval_metric ::
    "'m scorer \<Rightarrow> 'm score_hook \<Rightarrow> 'r metric_fn \<Rightarrow> pyobj \<Rightarrow> pyobj \<Rightarrow> string \<Rightarrow> error + 'r" where
  "eval_metric self score_core eval_metric_from_scores actual_anomalies series metric =
     and_then (check_single_series_support self) (\<lambda>_.
     and_then (check_univariate_scorer self (series2seq actual_anomalies)) (\<lambda>_.
     and_then (score self score_core series) (\<lambda>anomaly_score.
       eval_metric_from_scores (series2seq actual_anomalies) anomaly_score
         (if window_agg self then 1 else window self) metric)))"

definition eval_metric_from_prediction ::
    "'m scorer \<Rightarrow> 'm score_hook \<Rightarrow> 'm pair_hook \<Rightarrow> 'r metric_fn \<Rightarrow>
       pyobj \<Rightarrow> pyobj \<Rightarrow> pyobj \<Rightarrow> string \<Rightarrow> error + 'r" where
  "eval_metric_from_prediction self score_core score_core_from_prediction
       eval_metric_from_scores actual_anomalies actual_series pred_series metric =
     and_then (check_univariate_scorer self (series2seq actual_anomalies)) (\<lambda>_.
     and_then (score_from_prediction self score_core score_core_from_prediction
                 actual_series pred_series) (\<lambda>anomaly_score.
       eval_metric_from_scores (series2seq actual_anomalies) anomaly_score (window self) metric))"

section \<open>Windowed scorers\<close>

text \<open>
  \<^verbatim>\<open>numpy.lib.stride_tricks.sliding_window_view(arr, window_shape=w, axis=0)\<close> on an
  array of shape (T, C, S): an array of shape (T - w + 1, C, S, w) whose entry at
  (i, c, s, k) is \<^verbatim>\<open>arr[i + k, c, s]\<close>. It fails for a window that is not positive
  or is longer than the array.
\<close>

definition sliding_window_view ::
    "real list list list \<Rightarrow> int \<Rightarrow> error + real list list list list" where
  "sliding_window_view arr w =
     (if w \<le> 0 \<or> int (length arr) < w then Inl (ValueError ShapeMismatch)
      else Inr (map (\<lambda>i. map (\<lambda>c. map (\<lambda>s. map (\<lambda>k. arr ! (i + k) ! c ! s) [0..<nat w])
                                        [0..<length (hd (hd arr))])
                          [0..<length (hd arr)])
                  [0..<length arr - nat w + 1]))"

text \<open>
  \<^verbatim>\<open>reshape(-1, n)\<close> of the flattened array: rows of \<open>n\<close> entries each; it fails when
  the entries do not fill a whole number of rows.
\<close>

definition reshape_rows :: "nat \<Rightarrow> 'a list \<Rightarrow> error + 'a list list" where
  "reshape_rows n flat =
     (if n = 0 \<or> length flat mod n \<noteq> 0 then Inl (ValueError ShapeMismatch)
      else Inr (map (\<lambda>r. take n (drop (r * n) flat)) [0..<length flat div n]))"

text \<open>\<^verbatim>\<open>np.stack(a, axis=1)\<close> of the rows of an array: the first two axes swapped.\<close>

definition stack_axis1 :: "nat \<Rightarrow> 'a list list \<Rightarrow> 'a list list" where
  "stack_axis1 n a = map (\<lambda>c. map (\<lambda>row. row ! c) a) [0..<n]"

text \<open>
  \<^verbatim>\<open>_tabularize_series\<close> for one series, in its two modes: with
  \<^verbatim>\<open>component_wise=False\<close> the windows become rows of \<^verbatim>\<open>window * len(arr[0])\<close>
  entries; with \<^verbatim>\<open>component_wise=True\<close> every component gets its own rows of
  \<^verbatim>\<open>window\<close> entries.
\<close>

definition tabularize_rows :: "'m scorer \<Rightarrow> real list list list \<Rightarrow> error + real list list" where
  "tabularize_rows self arr =
     and_then (sliding_window_view arr (window self)) (\<lambda>v.
       reshape_rows (nat (window self) * length (hd arr)) (concat (concat (concat v))))"

definition tabularize_components ::
    "'m scorer \<Rightarrow> real list list list \<Rightarrow> error + real list list list" where
  "tabularize_components self arr =
     and_then (sliding_window_view arr (window self)) (\<lambda>v.
     and_then (reshape_rows (nat (window self))
                 (concat (concat (concat (stack_axis1 (length (hd arr)) v))))) (\<lambda>rows.
       if length (hd arr) = 0 \<or> length rows mod length (hd arr) \<noteq> 0
       then Inl (ValueError ShapeMismatch)
       else reshape_rows (length rows div length (hd arr)) rows))"

text \<open>
  \<^verbatim>\<open>np.concatenate(tabular_data, axis=1)\<close> of the component-wise tables of several
  series: for every component the rows of all series, one series after the other.
\<close>

definition concatenate_axis1 :: "'a list list list \<Rightarrow> error + 'a list list" where
  "concatenate_axis1 tabs =
     (case tabs of
        [] \<Rightarrow> Inl (ValueError ShapeMismatch)
      | t # ts \<Rightarrow>
          if list_all (\<lambda>u. length u = length t) ts
          then Inr (map (\<lambda>c. concat (map (\<lambda>u. u ! c) tabs)) [0..<length t])
          else Inl (ValueError ShapeMismatch))"

text \<open>
  \<^verbatim>\<open>np.array\<close> of the per-component score vectors is a matrix only when they have
  the same length; without any vector there is no second axis to slice.
\<close>

definition np_array2 :: "real list list \<Rightarrow> error + real list list" where
  "np_array2 rows =
     (case rows of
        [] \<Rightarrow> Inl IndexError
      | r # rs \<Rightarrow>
          if list_all (\<lambda>u. length u = length r) rs then Inr rows
          else Inl (ValueError ShapeMismatch))"

text \<open>A vector or a matrix of values given to \<^verbatim>\<open>from_times_and_values\<close> gets the missing axes.\<close>

definition expand_1d :: "real list \<Rightarrow> real list list list" where
  "expand_1d xs = map (\<lambda>x. [[x]]) xs"

definition expand_2d :: "real list list \<Rightarrow> real list list list" where
  "expand_2d xs = map (map (\<lambda>x. [x])) xs"

text \<open>\<^verbatim>\<open>_convert_tabular_to_series\<close>; \<open>indice\<close> is the running offset of its loop.\<close>

fun convert_tabular_to_series ::
    "'m scorer \<Rightarrow> int \<Rightarrow> TimeSeries list \<Rightarrow> real list list \<Rightarrow> error + TimeSeries list" where
  "convert_tabular_to_series self indice [] list_np_anomaly_score = Inr []"
| "convert_tabular_to_series self indice (series # rest) list_np_anomaly_score =
     and_then (from_times_and_values
                 (py_slice_from (time_index series) (window self - 1))
                 (expand_2d (zip_star
                    (map (\<lambda>row. py_slice row indice (indice + int (len series) - window self + 1))
                       list_np_anomaly_score)))) (\<lambda>r.
     and_then (convert_tabular_to_series self (indice + int (len series) - window self + 1)
                 rest list_np_anomaly_score) (\<lambda>rs.
       Inr (r # rs)))"

text \<open>
  \<^verbatim>\<open>WindowedAnomalyScorer._score_core\<close>, where \<^verbatim>\<open>list_series = [series]\<close>. The
  inference method \<^verbatim>\<open>_model_score_method\<close> of the concrete scorer is the argument
  \<open>model_score_method\<close>: it maps a model and a table of rows to a vector of scores.
  \<^verbatim>\<open>_parallel_apply\<close> returns the results in the order of its inputs. In the
  component-wise branch the table is built before \<^verbatim>\<open>zip\<close> iterates the model, which
  fails for a model that is not a list.
\<close>

type_synonym 'm score_method = "'m model_obj \<Rightarrow> real list list \<Rightarrow> real list"

definition windowed_score_core :: "'m score_method \<Rightarrow> 'm scorer \<Rightarrow> TimeSeries \<Rightarrow> error + TimeSeries"
  where
  "windowed_score_core model_score_method self series =
     and_then (case width_trained_on self of
                 None \<Rightarrow> Inl AttributeError
               | Some w \<Rightarrow> raise_if_not (w = width series) WidthMismatch) (\<lambda>_.
     and_then
       (if \<not> component_wise self \<or> width series = 1 then
          and_then (tabularize_rows self (all_values series)) (\<lambda>tabular_data.
            from_times_and_values (py_slice_from (time_index series) (window self - 1))
              (expand_1d (model_score_method (model self) tabular_data)))
        else
          and_then (tabularize_components self (all_values series)) (\<lambda>tab.
          and_then (concatenate_axis1 [tab]) (\<lambda>tabular_data.
            case model self of
              Model _ \<Rightarrow> Inl TypeError
            | Models ms \<Rightarrow>
                and_then (np_array2 (map (\<lambda>(m, d). model_score_method (Model m) d)
                                       (zip ms tabular_data))) (\<lambda>list_np_anomaly_score.
                and_then (convert_tabular_to_series self 0 [series] list_np_anomaly_score)
                  first))))
       (\<lambda>anomaly_score.
          if window self > 1 \<and> window_agg self
          then and_then (fun_window_agg [anomaly_score] (window self)) first
          else Inr anomaly_score))"

text \<open>\<^verbatim>\<open>WindowedAnomalyScorer._score_core_from_prediction\<close>.\<close>

definition windowed_score_core_from_prediction ::
    "'m score_method \<Rightarrow> 'm scorer \<Rightarrow> TimeSeries \<Rightarrow> TimeSeries \<Rightarrow> error + TimeSeries" where
  "windowed_score_core_from_prediction model_score_method self actual_series pred_series =
     and_then (diff_series self actual_series pred_series)
       (windowed_score_core model_score_method self)"

section \<open>Likelihood scorers\<close>

text \<open>
  Modelled from the spec: \<^verbatim>\<open>TimeSeries.window_transform\<close> is not under src/. With the
  arguments that the scorer passes (a rolling mean over \<open>w\<close> points that needs all
  \<open>w\<close> of them, positions without a value dropped) the value at a time stamp is the
  mean of the \<open>w\<close> values that end there, and the first \<open>w - 1\<close> time stamps are dropped.
\<close>

definition window_transform_rolling_mean :: "int \<Rightarrow> TimeSeries \<Rightarrow> error + TimeSeries" where
  "window_transform_rolling_mean w series =
     (if w \<le> 0 then Inl (ValueError ShapeMismatch)
      else Inr \<lparr>time_index = drop (nat w - 1) (time_index series),
                all_values = map (\<lambda>i. mean_axis0 (take (nat w) (drop i (all_values series))))
                               [0..<len series + 1 - nat w]\<rparr>)"

text \<open>The local function \<^verbatim>\<open>_window_adjustment_series\<close> of the likelihood scorer.\<close>

definition window_adjustment_series :: "'m scorer \<Rightarrow> TimeSeries \<Rightarrow> error + TimeSeries" where
  "window_adjustment_series self series =
     (if window self = 1 then Inr series
      else window_transform_rolling_mean (window self) series)"

text \<open>
  \<^verbatim>\<open>arr[:, c]\<close> of an array of shape (T, C, S), and the same followed by
  \<^verbatim>\<open>squeeze(-1)\<close>, which needs S = 1.
\<close>

definition column :: "real list list list \<Rightarrow> nat \<Rightarrow> error + real list list" where
  "column arr c =
     (if list_all (\<lambda>row. c < length row) arr then Inr (map (\<lambda>row. row ! c) arr)
      else Inl IndexError)"

definition squeeze_last :: "real list list \<Rightarrow> error + real list" where
  "squeeze_last m =
     (if list_all (\<lambda>cell. length cell = 1) m then Inr (map hd m)
      else Inl (ValueError ShapeMismatch))"

text \<open>
  \<^verbatim>\<open>NLLScorer._score_core_from_prediction\<close>, in two steps: the per-timestamp scores
  \<open>nll_anomaly_scores\<close>, then the window adjustment. The likelihood
  \<^verbatim>\<open>_score_core_nllikelihood\<close> of the concrete scorer is the argument
  \<open>score_core_nllikelihood\<close>: from the values of a component, of shape (T), and its
  predicted samples, of shape (T, S), to a vector of scores.
\<close>

type_synonym nll_fn = "real list \<Rightarrow> real list list \<Rightarrow> real list"

definition nll_anomaly_scores :: "nll_fn \<Rightarrow> TimeSeries \<Rightarrow> TimeSeries \<Rightarrow> error + TimeSeries" where
  "nll_anomaly_scores score_core_nllikelihood actual_series pred_series =
     (let actual = fst (extract_deterministic actual_series ''actual_series'')
      in and_then (assert_stochastic pred_series) (\<lambda>_.
         and_then (mapM (\<lambda>component_idx.
                      and_then (column (all_values actual) component_idx) (\<lambda>a.
                      and_then (squeeze_last a) (\<lambda>a'.
                      and_then (column (all_values pred_series) component_idx) (\<lambda>p.
                        Inr (score_core_nllikelihood a' p)))))
                    [0..<width pred_series]) (\<lambda>np_anomaly_scores.
           from_times_and_values (time_index pred_series)
             (expand_2d (zip_star np_anomaly_scores)))))"

definition nll_score_core_from_prediction ::
    "nll_fn \<Rightarrow> 'm scorer \<Rightarrow> TimeSeries \<Rightarrow> TimeSeries \<Rightarrow> error + TimeSeries" where
  "nll_score_core_from_prediction score_core_nllikelihood self actual_series pred_series =
     and_then (nll_anomaly_scores score_core_nllikelihood actual_series pred_series)
       (window_adjustment_series self)"

section \<open>Example inputs\<close>

text \<open>
  A fittable scorer as its constructor leaves it (window 2, window aggregation on), three
  series, and an inference method that scores a row by the sum of its entries.
\<close>

definition example_scorer :: "'m model_obj \<Rightarrow> 'm scorer" where
  "example_scorer m =
     \<lparr>window = 2, univariate_scorer = False, fittable = True, fit_called = Some False,
      is_probabilistic = False, diff_fn = ''abs_diff'', window_agg = True,
      single_series_support = True, n_jobs = 1, width_trained_on = None,
      component_wise = False, model = m\<rparr>"

definition example_series :: TimeSeries where
  "example_series = \<lparr>time_index = [0, 1, 2], all_values = [[[1]], [[2]], [[6]]]\<rparr>"

definition short_series :: TimeSeries where
  "short_series = \<lparr>time_index = [0], all_values = [[[5]]]\<rparr>"

definition stochastic_series :: TimeSeries where
  "stochastic_series = \<lparr>time_index = [0, 1], all_values = [[[1, 9, 2]], [[5, 3, 4]]]\<rparr>"

definition sum_score_method :: "'m score_method" where
  "sum_score_method m rows = map sum_list rows"

text \<open>
  A likelihood scorer as \<^verbatim>\<open>NLLScorer.__init__\<close> leaves it, a predicted series with two
  samples, and a likelihood that scores a value by the sum of the samples minus the value.
\<close>

definition example_nll_scorer :: "int \<Rightarrow> unit scorer" where
  "example_nll_scorer w =
     \<lparr>window = w, univariate_scorer = False, fittable = False, fit_called = None,
      is_probabilistic = True, diff_fn = ''abs_diff'', window_agg = False,
      single_series_support = False, n_jobs = 1, width_trained_on = None,
      component_wise = False, model = Model ()\<rparr>"

definition example_pred_series :: TimeSeries where
  "example_pred_series = \<lparr>time_index = [0, 1, 2], all_values = [[[1, 2]], [[2, 3]], [[6, 8]]]\<rparr>"

definition example_nll :: nll_fn where
  "example_nll a p = map2 (\<lambda>x samples. sum_list samples - x) a p"

section \<open>Basic facts\<close>

lemma and_then_Inr [simp]: "and_then (Inr x) f = f x"
  by (simp add: and_then_def)

lemma and_then_Inl [simp]: "and_then (Inl e) f = Inl e"
  by (simp add: and_then_def)

lemma and_then_eq_Inr:
  "and_then m f = Inr y \<longleftrightarrow> (\<exists>x. m = Inr x \<and> f x = Inr y)"
  by (cases m) simp_all

lemma raise_if_not_True [simp]: "c \<Longrightarrow> raise_if_not c k = Inr ()"
  by (simp add: raise_if_not_def)

lemma raise_if_not_False [simp]: "\<not> c \<Longrightarrow> raise_if_not c k = Inl (ValueError k)"
  by (simp add: raise_if_not_def)

lemma mapM_Inr:
  assumes "\<And>x. x \<in> set xs \<Longrightarrow> \<exists>y. f x = Inr y \<and> P x y"
  shows "\<exists>ys. mapM f xs = Inr ys \<and> list_all2 P xs ys"
  using assms
proof (induction xs)
  case Nil
  then show ?case by simp
next
  case (Cons x xs)
  from Cons.prems obtain y where y: "f x = Inr y" "P x y" by auto
  from Cons obtain ys where ys: "mapM f xs = Inr ys" "list_all2 P xs ys" by auto
  show ?case using y ys by simp
qed

section \<open>The mean over a window of rows\<close>

lemma add_rows_shape:
  "has_shape C S a \<Longrightarrow> has_shape C S b \<Longrightarrow> has_shape C S (add_rows a b)"
  by (auto simp: has_shape_def add_rows_def list_all_length)

lemma add_rows_nth:
  "has_shape C S a \<Longrightarrow> has_shape C S b \<Longrightarrow> c < C \<Longrightarrow> s < S \<Longrightarrow>
     add_rows a b ! c ! s = a ! c ! s + b ! c ! s"
  by (auto simp: has_shape_def add_rows_def list_all_length)

lemma foldl_add_rows:
  "has_shape C S v \<Longrightarrow> list_all (has_shape C S) rest \<Longrightarrow>
     has_shape C S (foldl add_rows v rest) \<and>
     (\<forall>c<C. \<forall>s<S. foldl add_rows v rest ! c ! s = v ! c ! s + (\<Sum>r\<leftarrow>rest. r ! c ! s))"
proof (induction rest arbitrary: v)
  case Nil
  then show ?case by simp
next
  case (Cons r rest)
  then have r: "has_shape C S r" and rest: "list_all (has_shape C S) rest" by simp_all
  have v': "has_shape C S (add_rows v r)" using Cons.prems(1) r by (rule add_rows_shape)
  show ?case
    using Cons.IH [OF v' rest] add_rows_nth [OF Cons.prems(1) r]
    by (simp add: add.assoc)
qed

lemma sum_axis0_nth:
  assumes "vs \<noteq> []" "list_all (has_shape C S) vs" "c < C" "s < S"
  shows "sum_axis0 vs ! c ! s = (\<Sum>r\<leftarrow>vs. r ! c ! s)"
    and "has_shape C S (sum_axis0 vs)"
  using assms foldl_add_rows [of C S "hd vs" "tl vs"]
  by (cases vs; simp add: sum_axis0_def)+

lemma sum_axis0_shape:
  assumes "vs \<noteq> []" "list_all (has_shape C S) vs"
  shows "has_shape C S (sum_axis0 vs)"
  using assms foldl_add_rows [of C S "hd vs" "tl vs"]
  by (cases vs; simp add: sum_axis0_def)

lemma mean_axis0_shape:
  assumes "vs \<noteq> []" "list_all (has_shape C S) vs"
  shows "has_shape C S (mean_axis0 vs)"
  using sum_axis0_shape [OF assms]
  by (simp add: mean_axis0_def has_shape_def list_all_length)

lemma mean_axis0_nth:
  assumes "vs \<noteq> []" "list_all (has_shape C S) vs" "c < C" "s < S"
  shows "mean_axis0 vs ! c ! s = (\<Sum>r\<leftarrow>vs. r ! c ! s) / real (length vs)"
proof -
  have sh: "has_shape C S (sum_axis0 vs)" using assms(1,2) by (rule sum_axis0_shape)
  then have "length (sum_axis0 vs) = C" "length (sum_axis0 vs ! c) = S"
    using assms(3) by (auto simp: has_shape_def list_all_length)
  then show ?thesis
    using assms sum_axis0_nth(1) [OF assms] by (simp add: mean_axis0_def)
qed

lemma py_slice_forward:
  assumes "1 \<le> w" "i < length xs"
  shows "py_slice xs (int i) (int i + w) = take (min (i + nat w) (length xs) - i) (drop i xs)"
  using assms by (auto simp: py_slice_def slice_bound_def Let_def nat_add_distrib min_def)

lemma sum_list_take_drop:
  assumes "i + k \<le> length xs"
  shows "(\<Sum>r\<leftarrow>take k (drop i xs). f r) = (\<Sum>j = i..<i + k. f (xs ! j))"
proof -
  have "(\<Sum>r\<leftarrow>take k (drop i xs). f r) = (\<Sum>j = 0..<k. f (take k (drop i xs) ! j))"
    using assms by (simp add: sum_list_sum_nth)
  also have "\<dots> = (\<Sum>j = 0..<k. f (xs ! (i + j)))"
    using assms by simp
  also have "\<dots> = (\<Sum>j = i..<i + k. f (xs ! j))"
    using sum.shift_bounds_nat_ivl [of "\<lambda>j. f (xs ! j)" 0 i k] by (simp add: add.commute)
  finally show ?thesis .
qed

lemma window_agg_one_spec:
  assumes wf: "wf_series sr" and w: "1 \<le> w"
  shows "\<exists>out. window_agg_one w sr = Inr out \<and>
           len out = len sr \<and> time_index out = time_index sr \<and>
           (\<forall>i<len sr. \<forall>c<width sr. \<forall>s<n_samples sr.
              all_values out ! i ! c ! s =
                (\<Sum>j = i..<min (i + nat w) (len sr). all_values sr ! j ! c ! s)
                  / real (min (i + nat w) (len sr) - i))"
proof -
  let ?vs = "all_values sr"
  let ?L = "len sr"
  let ?out = "\<lparr>time_index = time_index sr,
               all_values = map (\<lambda>i. mean_axis0 (py_slice ?vs (int i) (int i + w))) [0..<?L]\<rparr>"
  have run: "window_agg_one w sr = Inr ?out"
    using wf by (simp add: window_agg_one_def from_times_and_values_def wf_series_def len_def)
  have shp: "list_all (has_shape (width sr) (n_samples sr)) ?vs"
    using wf by (simp add: wf_series_def)
  have val: "all_values ?out ! i ! c ! s =
           (\<Sum>j = i..<min (i + nat w) ?L. ?vs ! j ! c ! s) / real (min (i + nat w) ?L - i)"
    if i: "i < ?L" and c: "c < width sr" and s: "s < n_samples sr" for i c s
  proof -
    let ?k = "min (i + nat w) ?L - i"
    let ?sl = "take ?k (drop i ?vs)"
    have sl: "py_slice ?vs (int i) (int i + w) = ?sl"
      using py_slice_forward [OF w, of i ?vs] i by (simp add: len_def)
    have k: "0 < ?k" "i + ?k \<le> length ?vs" using i w by (auto simp: len_def)
    then have ne: "?sl \<noteq> []" "length ?sl = ?k" by auto
    have shs: "list_all (has_shape (width sr) (n_samples sr)) ?sl"
      using shp by (auto simp: list_all_iff dest: in_set_takeD in_set_dropD)
    have "mean_axis0 ?sl ! c ! s = (\<Sum>r\<leftarrow>?sl. r ! c ! s) / real ?k"
      using mean_axis0_nth [OF ne(1) shs c s] ne(2) by simp
    also have "(\<Sum>r\<leftarrow>?sl. r ! c ! s) = (\<Sum>j = i..<i + ?k. ?vs ! j ! c ! s)"
      using sum_list_take_drop [OF k(2), of "\<lambda>r. r ! c ! s"] .
    also have "i + ?k = min (i + nat w) ?L" using i by simp
    finally show ?thesis using i sl by (simp add: len_def)
  qed
  have "len ?out = ?L" "time_index ?out = time_index sr" by (simp_all add: len_def)
  with run val show ?thesis by blast
qed

text \<open>
  C5. Window aggregation turns every window-wise score series of length L into a series
  of the same length L over the same time index, and its value at index i (for every
  component and sample) is the mean of the score values at the indices from i up to,
  but not including, i + W, cut off at the end of the series.
\<close>

theorem fun_window_agg_forward_mean:
  assumes "list_all wf_series list_scores" and "1 \<le> w"
  shows "\<exists>outs. fun_window_agg list_scores w = Inr outs \<and>
           length outs = length list_scores \<and>
           (\<forall>n<length list_scores.
              len (outs ! n) = len (list_scores ! n) \<and>
              time_index (outs ! n) = time_index (list_scores ! n) \<and>
              (\<forall>i<len (list_scores ! n). \<forall>c<width (list_scores ! n).
                 \<forall>s<n_samples (list_scores ! n).
                   all_values (outs ! n) ! i ! c ! s =
                     (\<Sum>j = i..<min (i + nat w) (len (list_scores ! n)).
                         all_values (list_scores ! n) ! j ! c ! s)
                       / real (min (i + nat w) (len (list_scores ! n)) - i)))"
proof -
  let ?P = "\<lambda>sr out.
     len out = len sr \<and> time_index out = time_index sr \<and>
     (\<forall>i<len sr. \<forall>c<width sr. \<forall>s<n_samples sr.
        all_values out ! i ! c ! s =
          (\<Sum>j = i..<min (i + nat w) (len sr). all_values sr ! j ! c ! s)
            / real (min (i + nat w) (len sr) - i))"
  have "\<exists>out. window_agg_one w sr = Inr out \<and> ?P sr out"
    if "sr \<in> set list_scores" for sr
    using that assms window_agg_one_spec [of sr w] by (simp add: list_all_iff)
  then obtain outs where outs: "mapM (window_agg_one w) list_scores = Inr outs"
      "list_all2 ?P list_scores outs"
    using mapM_Inr [of list_scores "window_agg_one w" ?P] by blast
  from outs(2) have "length outs = length list_scores"
    by (simp add: list_all2_lengthD)
  moreover from outs(2) have "?P (list_scores ! n) (outs ! n)" if "n < length list_scores" for n
    using that by (rule list_all2_nthD)
  ultimately show ?thesis
    using outs(1) unfolding fun_window_agg_def by blast
qed

theorem fun_window_agg_forward_mean_witness:
  "list_all wf_series [\<lparr>time_index = [0, 1, 2, 3], all_values = [[[1]], [[2]], [[6]], [[4]]]\<rparr>] \<and>
   (1::int) \<le> 2 \<and>
   fun_window_agg [\<lparr>time_index = [0, 1, 2, 3], all_values = [[[1]], [[2]], [[6]], [[4]]]\<rparr>] 2 =
     Inr [\<lparr>time_index = [0, 1, 2, 3], all_values = [[[3 / 2]], [[4]], [[5]], [[4]]]\<rparr>] \<and>
   (\<exists>outs. fun_window_agg
             [\<lparr>time_index = [0, 1, 2, 3], all_values = [[[1]], [[2]], [[6]], [[4]]]\<rparr>] 2 = Inr outs \<and>
           length outs = 1 \<and> len (outs ! 0) = 4 \<and> time_index (outs ! 0) = [0, 1, 2, 3])"
proof -
  let ?s = "\<lparr>time_index = [0, 1, 2, 3], all_values = [[[1]], [[2]], [[6]], [[4]]]\<rparr>"
  have wf: "list_all wf_series [?s]"
    by (simp add: wf_series_def has_shape_def width_def n_samples_def)
  have w: "(1::int) \<le> 2" by simp
  have run: "fun_window_agg [?s] 2 =
     Inr [\<lparr>time_index = [0, 1, 2, 3], all_values = [[[3 / 2]], [[4]], [[5]], [[4]]]\<rparr>]"
    by (simp add: fun_window_agg_def window_agg_one_def from_times_and_values_def len_def
        py_slice_def slice_bound_def mean_axis0_def sum_axis0_def add_rows_def upt_rec)
  have l: "len ?s = 4" by (simp add: len_def)
  from fun_window_agg_forward_mean [OF wf w] obtain outs where
    "fun_window_agg [?s] 2 = Inr outs" "length outs = 1"
    "len (outs ! 0) = len ?s" "time_index (outs ! 0) = time_index ?s"
    by auto
  then show ?thesis using wf run l by auto
qed

section \<open>Extraction of a deterministic series\<close>

lemma quantile_list_half_odd:
  assumes "length xs = 2 * k + 1"
  shows "quantile_list (1 / 2) xs = sort xs ! k"
proof -
  have "sort xs \<noteq> []" using assms by (metis Suc_eq_plus1 length_sort list.size(3) nat.simps(3))
  moreover have "(1 / 2) * real (length (sort xs) - 1) = real k" using assms by simp
  ultimately show ?thesis
    by (simp add: quantile_list_def Let_def)
qed

lemma quantile_list_half_even:
  assumes "length xs = 2 * k + 2"
  shows "quantile_list (1 / 2) xs = (sort xs ! k + sort xs ! (k + 1)) / 2"
proof -
  have ne: "sort xs \<noteq> []" using assms by (metis add_2_eq_Suc' length_sort list.size(3) nat.simps(3))
  have pos: "(1 / 2) * real (length (sort xs) - 1) = real k + 1 / 2" using assms by simp
  have fl: "nat \<lfloor>real k + 1 / 2\<rfloor> = k" by linarith
  have ce: "nat \<lceil>real k + 1 / 2\<rceil> = k + 1" by linarith
  have "quantile_list (1 / 2) xs =
          sort xs ! k + (real k + 1 / 2 - real k) * (sort xs ! (k + 1) - sort xs ! k)"
    unfolding quantile_list_def Let_def pos fl ce using ne by simp
  then show ?thesis by (simp add: field_simps)
qed

lemma n_samples_quantile:
  assumes "n_samples s > 1"
  shows "n_samples (quantile_timeseries q s) = 1"
  using assms by (auto simp: n_samples_def quantile_timeseries_def split: list.splits)

text \<open>
  C9. A deterministic series (one sample) is returned as it is and nothing is logged; a
  stochastic series (more than one sample) is replaced by its 0.5-quantile series, which
  has one sample, and one warning is logged.
\<close>

theorem extract_deterministic_cases:
  "(n_samples series = 1 \<longrightarrow> extract_deterministic series name_series = (series, [])) \<and>
   (n_samples series > 1 \<longrightarrow>
      extract_deterministic series name_series =
        (quantile_timeseries (1 / 2) series, [Warning name_series (n_samples series)]) \<and>
      n_samples (quantile_timeseries (1 / 2) series) = 1)"
  by (simp add: extract_deterministic_def is_deterministic_def n_samples_quantile)

theorem extract_deterministic_cases_witness:
  "n_samples \<lparr>time_index = [0, 1], all_values = [[[4]], [[7]]]\<rparr> = 1 \<and>
   extract_deterministic \<lparr>time_index = [0, 1], all_values = [[[4]], [[7]]]\<rparr> ''series'' =
     (\<lparr>time_index = [0, 1], all_values = [[[4]], [[7]]]\<rparr>, []) \<and>
   n_samples \<lparr>time_index = [0, 1], all_values = [[[1, 9, 2]], [[5, 3, 4]]]\<rparr> > 1 \<and>
   extract_deterministic \<lparr>time_index = [0, 1], all_values = [[[1, 9, 2]], [[5, 3, 4]]]\<rparr> ''series'' =
     (\<lparr>time_index = [0, 1], all_values = [[[2]], [[4]]]\<rparr>, [Warning ''series'' 3])"
proof -
  let ?d = "\<lparr>time_index = [0, 1], all_values = [[[4]], [[7]]]\<rparr>"
  let ?s = "\<lparr>time_index = [0, 1], all_values = [[[1, 9, 2]], [[5, 3, 4]]]\<rparr>"
  have d: "n_samples ?d = 1" by (simp add: n_samples_def)
  have s: "n_samples ?s = 3" by (simp add: n_samples_def)
  have q: "quantile_timeseries (1 / 2) ?s = \<lparr>time_index = [0, 1], all_values = [[[2]], [[4]]]\<rparr>"
    by (simp add: quantile_timeseries_def quantile_list_def Let_def)
  show ?thesis
    using extract_deterministic_cases [of ?d "''series''"]
          extract_deterministic_cases [of ?s "''series''"] d s q
    by simp
qed

section \<open>The fit gate\<close>

lemma mapM_Inl:
  "mapM f xs = Inl e \<Longrightarrow> \<exists>x \<in> set xs. f x = Inl e"
  by (induction xs) (auto split: sum.splits)

lemma and_then_eq_Inl:
  "and_then m f = Inl e \<longleftrightarrow> m = Inl e \<or> (\<exists>x. m = Inr x \<and> f x = Inl e)"
  by (cases m) simp_all

lemmas example_defs =
  example_scorer_def example_series_def short_series_def stochastic_series_def

lemmas fit_eval =
  fit_def check_single_series_support_def series2seq_def assert_timeseries_def
  check_window_size_def len_def width_def Let_def

lemma fit_loop_frame:
  "fit_loop self idx xs = (r, self') \<Longrightarrow>
     self' = self\<lparr>width_trained_on :=
               (if idx = 0 then (case xs of TS s # _ \<Rightarrow> Some (width s) | _ \<Rightarrow> width_trained_on self)
                else width_trained_on self)\<rparr>"
proof (induction xs arbitrary: self idx r self')
  case Nil
  then show ?case by simp
next
  case (Cons obj rest)
  show ?case
  proof (cases obj)
    case (PyList ys)
    with Cons.prems show ?thesis by (simp add: assert_timeseries_def)
  next
    case (TS s)
    show ?thesis
    proof (cases "idx = 0")
      case True
      let ?self1 = "self\<lparr>width_trained_on := Some (width s)\<rparr>"
      show ?thesis
      proof (cases "check_window_size ?self1 s")
        case (Inl e)
        with Cons.prems TS True show ?thesis by (simp add: assert_timeseries_def)
      next
        case (Inr u)
        with Cons.prems TS True have "fit_loop ?self1 (Suc 0) rest = (r, self')"
          by (simp add: assert_timeseries_def)
        from Cons.IH [OF this] show ?thesis using TS True by simp
      qed
    next
      case False
      show ?thesis
      proof (cases "width_trained_on self")
        case None
        with Cons.prems TS False show ?thesis by (simp add: assert_timeseries_def)
      next
        case (Some w)
        show ?thesis
        proof (cases "width s = w \<and> check_window_size self s = Inr ()")
          case True
          with Cons.prems TS False Some have "fit_loop self (idx + 1) rest = (r, self')"
            by (simp add: assert_timeseries_def)
          from Cons.IH [OF this] \<open>idx \<noteq> 0\<close> show ?thesis by simp
        next
          case False
          with Cons.prems TS \<open>idx \<noteq> 0\<close> Some show ?thesis
            by (cases "check_window_size self s")
               (auto simp: assert_timeseries_def raise_if_not_def split: if_splits)
        qed
      qed
    qed
  qed
qed

lemma fit_failure_frame:
  assumes "fit self fit_core series = (Inl e, self')"
  shows "self' = self\<lparr>width_trained_on :=
            (if single_series_support self
             then (case series2seq series of TS s # _ \<Rightarrow> Some (width s) | _ \<Rightarrow> width_trained_on self)
             else width_trained_on self)\<rparr>"
proof (cases "single_series_support self")
  case False
  with assms show ?thesis by (simp add: fit_def check_single_series_support_def)
next
  case True
  obtain r self1 where loop: "fit_loop self 0 (series2seq series) = (r, self1)"
    by (cases "fit_loop self 0 (series2seq series)")
  from fit_loop_frame [OF loop]
  have s1: "self1 = self\<lparr>width_trained_on :=
       (case series2seq series of TS s # _ \<Rightarrow> Some (width s) | _ \<Rightarrow> width_trained_on self)\<rparr>"
    by simp
  have "self' = self1"
    using assms True loop
    by (auto simp: fit_def check_single_series_support_def Let_def split: sum.splits)
  with s1 True show ?thesis by simp
qed

lemma fit_success_frame:
  assumes "fit self fit_core series = (Inr u, self')"
  shows "single_series_support self \<and>
         (\<exists>self1 m. fit_loop self 0 (series2seq series) = (Inr (), self1) \<and>
            fit_core self1 (series2seq series) = Inr m \<and>
            self' = self1\<lparr>model := m, fit_called := Some True\<rparr>)"
  using assms
  by (auto simp: fit_def check_single_series_support_def raise_if_not_def Let_def
           split: sum.splits if_splits prod.splits)

lemma fit_called_after_fit:
  "fit_called (snd (fit self fit_core series)) =
     (case fst (fit self fit_core series) of Inl _ \<Rightarrow> fit_called self | Inr _ \<Rightarrow> Some True)"
proof (cases "fit self fit_core series")
  case (Pair r self')
  show ?thesis
  proof (cases r)
    case (Inl e)
    with Pair fit_failure_frame [of self fit_core series e self']
    obtain w where "self' = self\<lparr>width_trained_on := w\<rparr>" by blast
    then have "fit_called self' = fit_called self" by simp
    with Pair Inl show ?thesis by simp
  next
    case (Inr u)
    with Pair fit_success_frame [of self fit_core series u self'] show ?thesis by auto
  qed
qed

lemma score_not_fitted:
  assumes "fit_called self \<noteq> Some True"
  shows "score self score_core series =
           Inl (ValueError (if single_series_support self then NotFitted
                            else SingleSeriesUnsupported))"
  using assms
  by (simp add: score_def check_single_series_support_def check_if_fit_called_def)

lemma score_fitted_not_gate:
  assumes fitted: "fit_called self = Some True"
    and hook: "\<And>s t. score_core s t \<noteq> Inl (ValueError NotFitted)"
  shows "score self score_core series \<noteq> Inl (ValueError NotFitted)"
proof
  assume fail: "score self score_core series = Inl (ValueError NotFitted)"
  let ?chk = "\<lambda>obj. and_then (assert_timeseries obj) (\<lambda>s.
                       and_then (check_window_size self s) (\<lambda>_. Inr s))"
  have chk: "?chk obj \<noteq> Inl (ValueError NotFitted)" for obj
    by (cases obj) (auto simp: assert_timeseries_def check_window_size_def raise_if_not_def)
  have sup: "single_series_support self"
    using fail by (auto simp: score_def check_single_series_support_def raise_if_not_def
        split: if_splits)
  show False
  proof (cases "mapM ?chk (series2seq series)")
    case (Inl e)
    with fail sup fitted have "e = ValueError NotFitted"
      by (simp add: score_def check_single_series_support_def check_if_fit_called_def)
    with Inl mapM_Inl [of ?chk "series2seq series" e] chk show False by blast
  next
    case (Inr list_series)
    let ?ds = "map (\<lambda>s. fst (extract_deterministic s ''series'')) list_series"
    from fail sup fitted Inr have "mapM (score_core self) ?ds = Inl (ValueError NotFitted)"
      by (auto simp: score_def check_single_series_support_def check_if_fit_called_def
          and_then_eq_Inl)
    with mapM_Inl [of "score_core self" ?ds] hook show False by blast
  qed
qed

text \<open>
  C8. A scorer from the constructor of the fittable class starts with the fit flag false.
  While the flag is not true, score fails: with the "not fitted" error, or, for a scorer
  without single-series support, with the error of that guard, which comes first (the
  spec counts both as precondition errors). A failed fit leaves the flag as it was, a
  successful fit sets it, and no call of fit clears it again. With the flag set, score
  does not fail with the "not fitted" error, provided the subclass's hook does not raise
  that error itself.
\<close>

theorem fit_gate_one_way:
  "(fittable_scorer_init us sss ps wa w df nj cw m = Inr self0 \<longrightarrow> fit_called self0 = Some False) \<and>
   (fit_called self \<noteq> Some True \<longrightarrow>
      score self score_core series =
        Inl (ValueError (if single_series_support self then NotFitted
                         else SingleSeriesUnsupported))) \<and>
   (fit self fit_core train = (Inl e, self') \<longrightarrow> fit_called self' = fit_called self) \<and>
   (fit self fit_core train = (Inr (), self') \<longrightarrow>
      fit_called self' = Some True \<and> check_if_fit_called self' = Inr ()) \<and>
   (fit_called self = Some True \<longrightarrow> fit_called (snd (fit self fit_core train)) = Some True) \<and>
   (fit_called self = Some True \<and> (\<forall>s t. score_core s t \<noteq> Inl (ValueError NotFitted)) \<longrightarrow>
      score self score_core series \<noteq> Inl (ValueError NotFitted))"
proof -
  have init: "fit_called self0 = Some False"
    if "fittable_scorer_init us sss ps wa w df nj cw m = Inr self0"
    using that
    by (auto simp: fittable_scorer_init_def scorer_init_def raise_if_not_def and_then_def
        split: if_splits option.splits)
  have fail: "fit_called self' = fit_called self" if "fit self fit_core train = (Inl e, self')"
    using fit_called_after_fit [of self fit_core train] that by simp
  have ok: "fit_called self' = Some True" if "fit self fit_core train = (Inr (), self')"
    using fit_called_after_fit [of self fit_core train] that by simp
  have keep: "fit_called (snd (fit self fit_core train)) = Some True"
    if "fit_called self = Some True"
    using fit_called_after_fit [of self fit_core train] that by (simp split: sum.splits)
  show ?thesis
    using init score_not_fitted [of self score_core series] fail ok keep
      score_fitted_not_gate [of self score_core series]
    by (simp add: check_if_fit_called_def)
qed

theorem fit_gate_one_way_witness:
  "fittable_scorer_init False True False (Some True) 2 ''abs_diff'' 1 False (Model ()) =
     Inr (example_scorer (Model ())) \<and>
   fit_called (example_scorer (Model ())) = Some False \<and>
   score (example_scorer (Model ())) (\<lambda>_ s. Inr s) (TS example_series) =
     Inl (ValueError NotFitted) \<and>
   fit (example_scorer (Model ())) (\<lambda>_ _. Inr (Model ())) (TS short_series) =
     (Inl (ValueError WindowTooLarge), (example_scorer (Model ()))\<lparr>width_trained_on := Some 1\<rparr>) \<and>
   fit_called ((example_scorer (Model ()))\<lparr>width_trained_on := Some 1\<rparr>) = Some False \<and>
   fit (example_scorer (Model ())) (\<lambda>_ _. Inr (Model ())) (TS example_series) =
     (Inr (), (example_scorer (Model ()))\<lparr>width_trained_on := Some 1, fit_called := Some True\<rparr>) \<and>
   score ((example_scorer (Model ()))\<lparr>width_trained_on := Some 1, fit_called := Some True\<rparr>)
       (\<lambda>_ s. Inr s) (TS example_series) \<noteq> Inl (ValueError NotFitted) \<and>
   fit_called (snd (fit ((example_scorer (Model ()))\<lparr>width_trained_on := Some 1, fit_called := Some True\<rparr>)
       (\<lambda>_ _. Inr (Model ())) (TS short_series))) = Some True"
proof -
  let ?fresh = "example_scorer (Model ()) :: unit scorer"
  let ?fitted = "?fresh\<lparr>width_trained_on := Some 1, fit_called := Some True\<rparr>"
  let ?hook = "(\<lambda>_ s. Inr s) :: unit score_hook"
  let ?fhook = "(\<lambda>_ _. Inr (Model ())) :: unit fit_hook"
  have init: "fittable_scorer_init False True False (Some True) 2 ''abs_diff'' 1 False (Model ()) =
     Inr ?fresh"
    by (simp add: fittable_scorer_init_def scorer_init_def example_scorer_def)
  have short: "fit ?fresh ?fhook (TS short_series) =
     (Inl (ValueError WindowTooLarge), ?fresh\<lparr>width_trained_on := Some 1\<rparr>)"
    by (simp add: fit_eval example_defs)
  have good: "fit ?fresh ?fhook (TS example_series) = (Inr (), ?fitted)"
    by (simp add: fit_eval example_defs)
  have hook: "\<forall>s t. ?hook s t \<noteq> Inl (ValueError NotFitted)" by simp
  have f0: "fit_called ?fresh \<noteq> Some True" "fit_called ?fitted = Some True"
    by (simp_all add: example_scorer_def)
  note t = fit_gate_one_way [where self = ?fresh and score_core = ?hook
      and series = "TS example_series" and fit_core = ?fhook]
  note u = fit_gate_one_way [where self = ?fitted and score_core = ?hook
      and series = "TS example_series" and fit_core = ?fhook and train = "TS short_series"]
  have 1: "fit_called ?fresh = Some False"
    using t [where ?self0.0 = ?fresh] init by blast
  have "score ?fresh ?hook (TS example_series) =
          Inl (ValueError (if single_series_support ?fresh then NotFitted
                           else SingleSeriesUnsupported))"
    using t f0(1) by blast
  then have 2: "score ?fresh ?hook (TS example_series) = Inl (ValueError NotFitted)"
    by (simp add: example_scorer_def)
  have "fit_called (?fresh\<lparr>width_trained_on := Some 1\<rparr>) = fit_called ?fresh"
    using t [where train = "TS short_series"] short by blast
  with 1 have 3: "fit_called (?fresh\<lparr>width_trained_on := Some 1\<rparr>) = Some False"
    by simp
  have 4: "score ?fitted ?hook (TS example_series) \<noteq> Inl (ValueError NotFitted)"
    using u f0(2) hook by blast
  have 5: "fit_called (snd (fit ?fitted ?fhook (TS short_series))) = Some True"
    using u f0(2) by blast
  show ?thesis
    using init 1 2 short 3 good 4 5 by simp
qed

section \<open>Type validation in score_from_prediction\<close>

lemma check_ts_single:
  "check_ts_or_list_ts (TS a) inp = Inr () \<longleftrightarrow> (\<exists>p. inp = TS p)"
  by (cases inp) (simp_all add: check_ts_or_list_ts_def isinstance_list_def assert_timeseries_def)

lemma mapM_eq_Inr_iff:
  "(\<exists>ys. mapM f xs = Inr ys) \<longleftrightarrow> (\<forall>x \<in> set xs. \<exists>y. f x = Inr y)"
  by (induction xs) (auto split: sum.splits)

lemma assert_timeseries_Inr_iff: "(\<exists>s. assert_timeseries obj = Inr s) \<longleftrightarrow> (\<exists>p. obj = TS p)"
  by (cases obj) (simp_all add: assert_timeseries_def)

lemma check_ts_list:
  "check_ts_or_list_ts (PyList xs) (PyList ys) = Inr () \<longleftrightarrow> (\<forall>y \<in> set ys. \<exists>p. y = TS p)"
proof -
  have "check_ts_or_list_ts (PyList xs) (PyList ys) = Inr () \<longleftrightarrow>
          (\<exists>zs. mapM assert_timeseries ys = Inr zs)"
    by (auto simp: check_ts_or_list_ts_def isinstance_list_def py_iter_def and_then_eq_Inr)
  then show ?thesis
    by (simp add: mapM_eq_Inr_iff assert_timeseries_Inr_iff)
qed

text \<open>
  C10. The check of an argument of score_from_prediction is chosen by the container type
  of \<^verbatim>\<open>actual_series\<close>: when that is a single series the argument is checked as one
  object, and passes only if it is itself a series; when it is a list, a list argument is
  checked element by element. So for a single actual series and a list of predicted
  series the call fails in the type validation, whatever the hooks are, unless the fit
  gate has already failed.
\<close>

theorem score_from_prediction_pred_check_by_actual:
  "(check_ts_or_list_ts (TS a) inp = Inr () \<longleftrightarrow> (\<exists>p. inp = TS p)) \<and>
   (check_ts_or_list_ts (PyList xs) (PyList ys) = Inr () \<longleftrightarrow> (\<forall>y \<in> set ys. \<exists>p. y = TS p)) \<and>
   score_from_prediction self score_core score_core_from_prediction (TS a) (PyList ps) =
     Inl (ValueError (if fittable self \<and> fit_called self \<noteq> Some True then NotFitted
                      else NotATimeSeries))"
proof -
  have a: "check_ts_or_list_ts (TS a) (TS a) = Inr ()"
    by (simp add: check_ts_single)
  have p: "check_ts_or_list_ts (TS a) (PyList ps) = Inl (ValueError NotATimeSeries)"
    by (simp add: check_ts_or_list_ts_def isinstance_list_def assert_timeseries_def)
  have "score_from_prediction self score_core score_core_from_prediction (TS a) (PyList ps) =
     Inl (ValueError (if fittable self \<and> fit_called self \<noteq> Some True then NotFitted
                      else NotATimeSeries))"
    by (simp add: score_from_prediction_def check_if_fit_called_def a p)
  then show ?thesis
    using check_ts_single check_ts_list by blast
qed

theorem score_from_prediction_pred_check_by_actual_witness:
  "check_ts_or_list_ts (TS example_series) (PyList [TS example_series]) \<noteq> Inr () \<and>
   check_ts_or_list_ts (PyList [TS example_series]) (PyList [TS example_series]) = Inr () \<and>
   score_from_prediction
       ((example_scorer (Model ()))\<lparr>width_trained_on := Some 1, fit_called := Some True\<rparr>)
       (\<lambda>_ s. Inr s) (\<lambda>_ s _. Inr s) (TS example_series) (PyList [TS example_series]) =
     Inl (ValueError NotATimeSeries) \<and>
   score_from_prediction
       ((example_scorer (Model ()))\<lparr>width_trained_on := Some 1, fit_called := Some True\<rparr>)
       (\<lambda>_ s. Inr s) (\<lambda>_ s _. Inr s) (PyList [TS example_series]) (PyList [TS example_series]) =
     Inr (PyList [TS \<lparr>time_index = [0, 1, 2], all_values = [[[0]], [[0]], [[0]]]\<rparr>])"
proof -
  let ?fitted = "(example_scorer (Model ()))\<lparr>width_trained_on := Some 1, fit_called := Some True\<rparr>
                   :: unit scorer"
  note t = score_from_prediction_pred_check_by_actual
      [where a = example_series and inp = "PyList [TS example_series]"
         and xs = "[TS example_series]" and ys = "[TS example_series]"
         and ps = "[TS example_series]" and self = ?fitted
         and score_core = "\<lambda>_ s. Inr s" and score_core_from_prediction = "\<lambda>_ s _. Inr s"]
  have 1: "check_ts_or_list_ts (TS example_series) (PyList [TS example_series]) \<noteq> Inr ()"
    using t by blast
  have 2: "check_ts_or_list_ts (PyList [TS example_series]) (PyList [TS example_series]) = Inr ()"
    using t by simp
  have "score_from_prediction ?fitted (\<lambda>_ s. Inr s) (\<lambda>_ s _. Inr s)
          (TS example_series) (PyList [TS example_series]) =
        Inl (ValueError (if fittable ?fitted \<and> fit_called ?fitted \<noteq> Some True then NotFitted
                         else NotATimeSeries))"
    using t by blast
  then have 3: "score_from_prediction ?fitted (\<lambda>_ s. Inr s) (\<lambda>_ s _. Inr s)
          (TS example_series) (PyList [TS example_series]) = Inl (ValueError NotATimeSeries)"
    by simp
  have 4: "score_from_prediction ?fitted (\<lambda>_ s. Inr s) (\<lambda>_ s _. Inr s)
          (PyList [TS example_series]) (PyList [TS example_series]) =
        Inr (PyList [TS \<lparr>time_index = [0, 1, 2], all_values = [[[0]], [[0]], [[0]]]\<rparr>])"
    by (simp add: score_from_prediction_def check_if_fit_called_def
        2 [unfolded example_series_def] series2seq_def
        attr_series_def extract_deterministic_def is_deterministic_def n_samples_def
        check_probabilistic_series_def assert_same_length_def score_pair_def
        sanity_check_two_series_def width_def intersect_def slice_intersect_def len_def
        check_window_size_def diff_series_def ts_sub_def shape_def ts_map_def result_of_def
        isinstance_Sequence_def example_scorer_def example_series_def Let_def)
  show ?thesis using 1 2 3 4 by simp
qed

section \<open>The window given to the metric\<close>

lemma score_Inr_support:
  "score self score_core series = Inr x \<Longrightarrow> check_single_series_support self = Inr ()"
  by (cases "single_series_support self")
     (simp_all add: score_def check_single_series_support_def)

text \<open>
  C4. When its checks and the scoring succeed, eval_metric calls the external metric
  function with the window 1 if window aggregation is on and with the configured window
  otherwise; eval_metric_from_prediction calls it with the configured window in both
  cases.
\<close>

theorem eval_metric_window_argument:
  "(check_univariate_scorer self (series2seq actual_anomalies) = Inr () \<and>
    score self score_core series = Inr anomaly_score \<longrightarrow>
      eval_metric self score_core eval_metric_from_scores actual_anomalies series metric =
        eval_metric_from_scores (series2seq actual_anomalies) anomaly_score
          (if window_agg self then 1 else window self) metric) \<and>
   (check_univariate_scorer self (series2seq actual_anomalies) = Inr () \<and>
    score_from_prediction self score_core score_core_from_prediction actual_series pred_series =
      Inr anomaly_score' \<longrightarrow>
      eval_metric_from_prediction self score_core score_core_from_prediction
          eval_metric_from_scores actual_anomalies actual_series pred_series metric =
        eval_metric_from_scores (series2seq actual_anomalies) anomaly_score' (window self) metric)"
  using score_Inr_support [of self score_core series anomaly_score]
  by (simp add: eval_metric_def eval_metric_from_prediction_def)

lemmas score_eval =
  score_def check_single_series_support_def check_if_fit_called_def series2seq_def
  assert_timeseries_def check_window_size_def len_def extract_deterministic_def
  is_deterministic_def n_samples_def result_of_def isinstance_Sequence_def

lemmas score_from_prediction_eval =
  score_from_prediction_def check_if_fit_called_def check_ts_or_list_ts_def
  isinstance_list_def assert_timeseries_def series2seq_def
  attr_series_def extract_deterministic_def is_deterministic_def n_samples_def
  check_probabilistic_series_def assert_same_length_def score_pair_def
  sanity_check_two_series_def width_def intersect_def slice_intersect_def len_def
  check_window_size_def diff_series_def ts_sub_def shape_def ts_map_def result_of_def
  isinstance_Sequence_def Let_def

theorem eval_metric_window_argument_witness:
  "check_univariate_scorer
       ((example_scorer (Model ()))\<lparr>width_trained_on := Some 1, fit_called := Some True\<rparr>)
       (series2seq (TS example_series)) = Inr () \<and>
   score ((example_scorer (Model ()))\<lparr>width_trained_on := Some 1, fit_called := Some True\<rparr>)
       (\<lambda>_ s. Inr s) (TS example_series) = Inr (TS example_series) \<and>
   eval_metric ((example_scorer (Model ()))\<lparr>width_trained_on := Some 1, fit_called := Some True\<rparr>)
       (\<lambda>_ s. Inr s) (\<lambda>_ _ w _. Inr w) (TS example_series) (TS example_series) ''AUC_ROC'' =
     Inr 1 \<and>
   score_from_prediction
       ((example_scorer (Model ()))\<lparr>width_trained_on := Some 1, fit_called := Some True\<rparr>)
       (\<lambda>_ s. Inr s) (\<lambda>_ s _. Inr s) (TS example_series) (TS example_series) =
     Inr (TS \<lparr>time_index = [0, 1, 2], all_values = [[[0]], [[0]], [[0]]]\<rparr>) \<and>
   eval_metric_from_prediction
       ((example_scorer (Model ()))\<lparr>width_trained_on := Some 1, fit_called := Some True\<rparr>)
       (\<lambda>_ s. Inr s) (\<lambda>_ s _. Inr s) (\<lambda>_ _ w _. Inr w)
       (TS example_series) (TS example_series) (TS example_series) ''AUC_ROC'' =
     Inr 2"
proof -
  let ?fitted = "(example_scorer (Model ()))\<lparr>width_trained_on := Some 1, fit_called := Some True\<rparr>
                   :: unit scorer"
  let ?hook = "(\<lambda>_ s. Inr s) :: unit score_hook"
  let ?phook = "(\<lambda>_ s _. Inr s) :: unit pair_hook"
  let ?m = "(\<lambda>_ _ w _. Inr w) :: int metric_fn"
  let ?zero = "TS \<lparr>time_index = [0, 1, 2], all_values = [[[0]], [[0]], [[0]]]\<rparr>"
  have u: "check_univariate_scorer ?fitted (series2seq (TS example_series)) = Inr ()"
    by (simp add: check_univariate_scorer_def example_scorer_def)
  have s: "score ?fitted ?hook (TS example_series) = Inr (TS example_series)"
    by (simp add: score_eval example_scorer_def example_series_def)
  have p: "score_from_prediction ?fitted ?hook ?phook (TS example_series) (TS example_series) =
             Inr ?zero"
    by (simp add: score_from_prediction_eval example_scorer_def example_series_def)
  note t = eval_metric_window_argument [where self = ?fitted and score_core = ?hook
      and score_core_from_prediction = ?phook and eval_metric_from_scores = ?m
      and actual_anomalies = "TS example_series" and series = "TS example_series"
      and actual_series = "TS example_series" and pred_series = "TS example_series"
      and metric = "''AUC_ROC''" and anomaly_score = "TS example_series"
      and anomaly_score' = ?zero]
  have "eval_metric ?fitted ?hook ?m (TS example_series) (TS example_series) ''AUC_ROC'' =
          Inr (if window_agg ?fitted then 1 else window ?fitted)"
    using t u s by blast
  then have 1: "eval_metric ?fitted ?hook ?m (TS example_series) (TS example_series) ''AUC_ROC'' =
          Inr 1"
    by (simp add: example_scorer_def)
  have "eval_metric_from_prediction ?fitted ?hook ?phook ?m
          (TS example_series) (TS example_series) (TS example_series) ''AUC_ROC'' =
          Inr (window ?fitted)"
    using t u p by blast
  then have 2: "eval_metric_from_prediction ?fitted ?hook ?phook ?m
          (TS example_series) (TS example_series) (TS example_series) ''AUC_ROC'' = Inr 2"
    by (simp add: example_scorer_def)
  show ?thesis using u s p 1 2 by simp
qed

section \<open>What a failed fit leaves behind\<close>





section \<open>What the fit hook receives\<close>

text \<open>
  C2. The claim says that the subclass's fit routine receives the median series of a
  stochastic input. On the example below fit logs that the series will be converted and
  computes the median series, but the hook (which stores the list it is given as the
  model) receives the stochastic series itself.
\<close>

theorem fit_hook_receives_stochastic_series:
  "fit (example_scorer (Model [])) (\<lambda>_ list_series. Inr (Model list_series))
       (TS stochastic_series) =
     (Inr (), (example_scorer (Model []))
                \<lparr>width_trained_on := Some 1,
                   model := Model [TS stochastic_series],
                   fit_called := Some True\<rparr>) \<and>
   n_samples stochastic_series = 3 \<and>
   extract_deterministic stochastic_series ''series'' =
     (\<lparr>time_index = [0, 1], all_values = [[[2]], [[4]]]\<rparr>, [Warning ''series'' 3]) \<and>
   stochastic_series \<noteq> \<lparr>time_index = [0, 1], all_values = [[[2]], [[4]]]\<rparr>"
proof -
  have 1: "fit (example_scorer (Model [])) (\<lambda>_ list_series. Inr (Model list_series))
       (TS stochastic_series) =
     (Inr (), (example_scorer (Model []))
                \<lparr>width_trained_on := Some 1,
                   model := Model [TS stochastic_series],
                   fit_called := Some True\<rparr>)"
    by (simp add: fit_eval example_defs)
  have 2: "n_samples stochastic_series = 3"
    by (simp add: n_samples_def stochastic_series_def)
  have 3: "extract_deterministic stochastic_series ''series'' =
     (\<lparr>time_index = [0, 1], all_values = [[[2]], [[4]]]\<rparr>, [Warning ''series'' 3])"
    by (simp add: extract_deterministic_def is_deterministic_def n_samples_def
        stochastic_series_def quantile_timeseries_def quantile_list_def Let_def)
  have 4: "stochastic_series \<noteq> \<lparr>time_index = [0, 1], all_values = [[[2]], [[4]]]\<rparr>"
    by (simp add: stochastic_series_def)
  show ?thesis using 1 2 3 4 by blast
qed

section \<open>The difference of two series\<close>

lemma map2_swap:
  assumes "\<And>x y. f x y = g (f' y x)"
  shows "map2 f xs ys = map g (map2 f' ys xs)"
proof -
  have "zip xs ys = map (\<lambda>(y, x). (x, y)) (zip ys xs)"
    by (rule zip_commute)
  then show ?thesis
    using assms by (simp add: case_prod_beta o_def)
qed

lemma sub_values_neg:
  "map2 (map2 (map2 (-))) X Y =
     map (map (map uminus)) (map2 (map2 (map2 (-))) Y (X :: real list list list))"
  by (intro map2_swap) simp

lemma sub_values_abs:
  "map (map (map abs)) (map2 (map2 (map2 (-))) X Y) =
     map (map (map abs)) (map2 (map2 (map2 (-))) Y (X :: real list list list))"
  by (subst sub_values_neg) (simp add: o_def)

lemma time_index_slice_intersect:
  assumes "length (time_index a) = length (all_values a)"
  shows "time_index (slice_intersect a b) = filter (\<lambda>t. t \<in> set (time_index b)) (time_index a)"
proof -
  have "map fst (filter (\<lambda>(t, v). P t) (zip xs ys)) = filter P xs"
    if "length xs = length ys" for P and xs :: "int list" and ys :: "real list list list"
    using that by (induction xs ys rule: list_induct2) auto
  with assms show ?thesis by (simp add: slice_intersect_def Let_def)
qed

lemma len_slice_intersect:
  "len (slice_intersect a b) = length (time_index (slice_intersect a b))"
  by (simp add: slice_intersect_def len_def Let_def)

lemma slice_intersect_commute:
  assumes "wf_series a" "wf_series b"
  shows "time_index (slice_intersect a b) = time_index (slice_intersect b a)"
proof -
  let ?ta = "time_index a" and ?tb = "time_index b"
  have sa: "sorted_wrt (<) ?ta" and sb: "sorted_wrt (<) ?tb"
    using assms by (simp_all add: wf_series_def)
  let ?l = "filter (\<lambda>t. t \<in> set ?tb) ?ta" and ?r = "filter (\<lambda>t. t \<in> set ?ta) ?tb"
  have "sorted_wrt (<) ?l" "sorted_wrt (<) ?r"
    using sa sb by (simp_all add: sorted_wrt_filter)
  moreover have "set ?l = set ?r" by auto
  ultimately have "?l = ?r"
    by (metis sorted_distinct_set_unique strict_sorted_iff)
  then show ?thesis
    using assms by (simp add: time_index_slice_intersect wf_series_def)
qed

lemma intersect_commute:
  assumes "wf_series a" "wf_series b"
  shows "intersect b a = map_sum id (\<lambda>(x, y). (y, x)) (intersect a b)"
  using slice_intersect_commute [OF assms]
  by (simp add: intersect_def Let_def len_slice_intersect)

lemma ts_sub_commute:
  assumes "time_index x = time_index y"
  shows "ts_sub y x = map_sum id ts_neg (ts_sub x y)"
  using assms sub_values_neg [of "all_values y" "all_values x"]
  by (auto simp: ts_sub_def ts_neg_def ts_map_def)

lemma ts_sub_abs_commute:
  assumes "time_index x = time_index y"
  shows "map_sum id (ts_map abs) (ts_sub y x) = map_sum id (ts_map abs) (ts_sub x y)"
  using assms sub_values_abs [of "all_values y" "all_values x"]
  by (auto simp: ts_sub_def ts_map_def)

lemma and_then_Inr_map_sum: "and_then m (\<lambda>d. Inr (f d)) = map_sum id f m"
  by (cases m) simp_all

lemma all_values_slice_intersect_subset:
  "set (all_values (slice_intersect a b)) \<subseteq> set (all_values a)"
  by (auto simp: slice_intersect_def Let_def dest: set_zip_rightD)

lemma shape_uniform:
  assumes "list_all (has_shape C S) vs"
  shows "shape vs = replicate (length vs) (replicate C S)"
proof -
  have "map length r = replicate C S" if "has_shape C S r" for r
    using that by (auto simp: has_shape_def list_all_iff intro: replicate_eqI)
  with assms show ?thesis
    by (auto simp: shape_def list_all_iff intro!: replicate_eqI)
qed

lemma slice_intersect_shape:
  assumes "wf_series a"
  shows "shape (all_values (slice_intersect a b)) =
           replicate (len (slice_intersect a b)) (replicate (width a) (n_samples a))"
proof -
  have "list_all (has_shape (width a) (n_samples a)) (all_values (slice_intersect a b))"
    using assms all_values_slice_intersect_subset [of a b]
    by (auto simp: wf_series_def list_all_iff)
  from shape_uniform [OF this] show ?thesis by (simp add: len_def)
qed

lemma diff_series_succeeds:
  assumes wf: "wf_series a" "wf_series b"
    and fn: "diff_fn self = ''diff'' \<or> diff_fn self = ''abs_diff''"
    and common: "\<exists>t \<in> set (time_index a). t \<in> set (time_index b)"
    and same: "width a = width b" "n_samples a = n_samples b"
  shows "\<exists>d. diff_series self a b = Inr d"
proof -
  let ?a = "slice_intersect a b" and ?b = "slice_intersect b a"
  have "time_index ?a \<noteq> []"
    using common wf(1) by (auto simp: time_index_slice_intersect wf_series_def filter_empty_conv)
  then have ne: "len ?a \<noteq> 0" by (simp add: len_slice_intersect)
  then have i: "intersect a b = Inr (?a, ?b)" by (simp add: intersect_def Let_def)
  have "len ?a = len ?b"
    using slice_intersect_commute [OF wf] by (simp add: len_slice_intersect)
  then have "shape (all_values ?a) = shape (all_values ?b)"
    using slice_intersect_shape [OF wf(1), of b] slice_intersect_shape [OF wf(2), of a] same
    by simp
  then obtain d where "ts_sub ?a ?b = Inr d" by (simp add: ts_sub_def)
  with i fn show ?thesis by (auto simp: diff_series_def)
qed

text \<open>
  C7. For two series, each with a strictly increasing time index: under "diff" the
  difference of b and a is the negation of the difference of a and b, and when one
  fails the other fails in the same way; under "abs_diff" the two differences are
  equal. When the series share a time stamp and have the same width and the same number
  of samples, the difference exists.
\<close>

theorem diff_series_symmetry:
  assumes "wf_series a" and "wf_series b"
  shows "(diff_fn self = ''diff'' \<longrightarrow>
            (\<forall>d. diff_series self a b = Inr d \<longrightarrow> diff_series self b a = Inr (ts_neg d)) \<and>
            (\<forall>e. diff_series self a b = Inl e \<longrightarrow> diff_series self b a = Inl e)) \<and>
         (diff_fn self = ''abs_diff'' \<longrightarrow> diff_series self b a = diff_series self a b) \<and>
         ((diff_fn self = ''diff'' \<or> diff_fn self = ''abs_diff'') \<and>
          (\<exists>t \<in> set (time_index a). t \<in> set (time_index b)) \<and>
          width a = width b \<and> n_samples a = n_samples b \<longrightarrow>
            (\<exists>d. diff_series self a b = Inr d))"
proof -
  have sym: "(diff_fn self = ''diff'' \<longrightarrow>
            (\<forall>d. diff_series self a b = Inr d \<longrightarrow> diff_series self b a = Inr (ts_neg d)) \<and>
            (\<forall>e. diff_series self a b = Inl e \<longrightarrow> diff_series self b a = Inl e)) \<and>
         (diff_fn self = ''abs_diff'' \<longrightarrow> diff_series self b a = diff_series self a b)"
  proof (cases "intersect a b")
    case (Inl e)
    then have "intersect b a = Inl e"
      using intersect_commute [OF assms] by simp
    with Inl show ?thesis by (simp add: diff_series_def)
  next
    case (Inr p)
    obtain a' b' where p: "p = (a', b')" by (cases p)
    have ba: "intersect b a = Inr (b', a')"
      using intersect_commute [OF assms] Inr p by simp
    have ti: "time_index a' = time_index b'"
      using Inr p slice_intersect_commute [OF assms]
      by (auto simp: intersect_def Let_def split: if_splits)
    have d: "ts_sub b' a' = map_sum id ts_neg (ts_sub a' b')"
      using ti by (rule ts_sub_commute)
    have ab: "map_sum id (ts_map abs) (ts_sub b' a') = map_sum id (ts_map abs) (ts_sub a' b')"
      using ti by (rule ts_sub_abs_commute)
    show ?thesis
      using Inr p ba d ab
      by (cases "ts_sub a' b'") (auto simp: diff_series_def and_then_Inr_map_sum)
  qed
  with diff_series_succeeds [OF assms, of self] show ?thesis by blast
qed

lemmas diff_series_eval =
  diff_series_def intersect_def slice_intersect_def len_def ts_sub_def shape_def ts_map_def
  Let_def

theorem diff_series_symmetry_witness:
  "wf_series example_series \<and>
   wf_series \<lparr>time_index = [1, 2, 3], all_values = [[[4]], [[1]], [[0]]]\<rparr> \<and>
   diff_series ((example_scorer (Model ()))\<lparr>diff_fn := ''diff''\<rparr>) example_series
       \<lparr>time_index = [1, 2, 3], all_values = [[[4]], [[1]], [[0]]]\<rparr> =
     Inr \<lparr>time_index = [1, 2], all_values = [[[- 2]], [[5]]]\<rparr> \<and>
   diff_series ((example_scorer (Model ()))\<lparr>diff_fn := ''diff''\<rparr>)
       \<lparr>time_index = [1, 2, 3], all_values = [[[4]], [[1]], [[0]]]\<rparr> example_series =
     Inr \<lparr>time_index = [1, 2], all_values = [[[2]], [[- 5]]]\<rparr> \<and>
   diff_series (example_scorer (Model ())) example_series
       \<lparr>time_index = [1, 2, 3], all_values = [[[4]], [[1]], [[0]]]\<rparr> =
     Inr \<lparr>time_index = [1, 2], all_values = [[[2]], [[5]]]\<rparr> \<and>
   diff_series (example_scorer (Model ()))
       \<lparr>time_index = [1, 2, 3], all_values = [[[4]], [[1]], [[0]]]\<rparr> example_series =
     Inr \<lparr>time_index = [1, 2], all_values = [[[2]], [[5]]]\<rparr>"
proof -
  let ?b = "\<lparr>time_index = [1, 2, 3], all_values = [[[4]], [[1]], [[0]]]\<rparr>"
  let ?d = "(example_scorer (Model ()))\<lparr>diff_fn := ''diff''\<rparr> :: unit scorer"
  let ?a = "example_scorer (Model ()) :: unit scorer"
  have wa: "wf_series example_series"
    by (simp add: wf_series_def has_shape_def width_def n_samples_def example_series_def)
  have wb: "wf_series ?b"
    by (simp add: wf_series_def has_shape_def width_def n_samples_def)
  have d1: "diff_series ?d example_series ?b =
              Inr \<lparr>time_index = [1, 2], all_values = [[[- 2]], [[5]]]\<rparr>"
    by (simp add: diff_series_eval example_scorer_def example_series_def)
  have a1: "diff_series ?a example_series ?b =
              Inr \<lparr>time_index = [1, 2], all_values = [[[2]], [[5]]]\<rparr>"
    by (simp add: diff_series_eval example_scorer_def example_series_def)
  have fd: "diff_fn ?d = ''diff''" and fa: "diff_fn ?a = ''abs_diff''"
    by (simp_all add: example_scorer_def)
  have "diff_series ?d ?b example_series =
          Inr (ts_neg \<lparr>time_index = [1, 2], all_values = [[[- 2]], [[5]]]\<rparr>)"
    using diff_series_symmetry [OF wa wb, of ?d] fd d1 by blast
  then have d2: "diff_series ?d ?b example_series =
          Inr \<lparr>time_index = [1, 2], all_values = [[[2]], [[- 5]]]\<rparr>"
    by (simp add: ts_neg_def ts_map_def)
  have "diff_series ?a ?b example_series = diff_series ?a example_series ?b"
    using diff_series_symmetry [OF wa wb, of ?a] fa by blast
  with a1 have a2: "diff_series ?a ?b example_series =
          Inr \<lparr>time_index = [1, 2], all_values = [[[2]], [[5]]]\<rparr>"
    by simp
  show ?thesis using wa wb d1 d2 a1 a2 by blast
qed

section \<open>The window of the likelihood scorer\<close>

lemma window_transform_rolling_mean_spec:
  assumes wf: "wf_series raw" and w: "1 \<le> w" "w \<le> int (len raw)"
  shows "\<exists>out. window_transform_rolling_mean w raw = Inr out \<and>
           len out = len raw - nat w + 1 \<and>
           time_index out = drop (nat w - 1) (time_index raw) \<and>
           (\<forall>j<len out. \<forall>c<width raw. \<forall>s<n_samples raw.
              all_values out ! j ! c ! s =
                (\<Sum>k = j..<j + nat w. all_values raw ! k ! c ! s) / real (nat w))"
proof -
  let ?vs = "all_values raw"
  let ?L = "len raw"
  let ?n = "nat w"
  let ?out = "\<lparr>time_index = drop (?n - 1) (time_index raw),
               all_values = map (\<lambda>i. mean_axis0 (take ?n (drop i ?vs))) [0..<?L + 1 - ?n]\<rparr>"
  have n: "1 \<le> ?n" "?n \<le> ?L" using w by auto
  have run: "window_transform_rolling_mean w raw = Inr ?out"
    using w by (simp add: window_transform_rolling_mean_def)
  have l: "len ?out = ?L - ?n + 1" using n by (simp add: len_def)
  have shp: "list_all (has_shape (width raw) (n_samples raw)) ?vs"
    using wf by (simp add: wf_series_def)
  have val: "all_values ?out ! j ! c ! s = (\<Sum>k = j..<j + ?n. ?vs ! k ! c ! s) / real ?n"
    if j: "j < len ?out" and c: "c < width raw" and s: "s < n_samples raw" for j c s
  proof -
    let ?sl = "take ?n (drop j ?vs)"
    have jn: "j + ?n \<le> length ?vs" using j l n by (simp add: len_def)
    then have ne: "?sl \<noteq> []" "length ?sl = ?n" using n by auto
    have shs: "list_all (has_shape (width raw) (n_samples raw)) ?sl"
      using shp by (auto simp: list_all_iff dest: in_set_takeD in_set_dropD)
    have "mean_axis0 ?sl ! c ! s = (\<Sum>r\<leftarrow>?sl. r ! c ! s) / real ?n"
      using mean_axis0_nth [OF ne(1) shs c s] ne(2) by simp
    also have "(\<Sum>r\<leftarrow>?sl. r ! c ! s) = (\<Sum>k = j..<j + ?n. ?vs ! k ! c ! s)"
      using sum_list_take_drop [OF jn, of "\<lambda>r. r ! c ! s"] .
    finally have "mean_axis0 ?sl ! c ! s = (\<Sum>k = j..<j + ?n. ?vs ! k ! c ! s) / real ?n" .
    moreover have "all_values ?out ! j = mean_axis0 ?sl"
      using j by (simp add: len_def del: upt_Suc)
    ultimately show ?thesis by simp
  qed
  show ?thesis using run l val by (intro exI [of _ ?out]) simp
qed

lemma window_adjustment_series_window_agg:
  "window_adjustment_series (self\<lparr>window_agg := b\<rparr>) = window_adjustment_series self"
  by (rule ext) (simp add: window_adjustment_series_def)

lemma nll_core_window_agg:
  "nll_score_core_from_prediction nll (self\<lparr>window_agg := b\<rparr>) actual pred =
   nll_score_core_from_prediction nll self actual pred"
  by (simp add: nll_score_core_from_prediction_def window_adjustment_series_window_agg)

lemma score_pair_window_agg:
  assumes "\<not> single_series_support self"
    and "pair_core (self\<lparr>window_agg := b\<rparr>) = pair_core self"
  shows "score_pair (self\<lparr>window_agg := b\<rparr>) score_core pair_core =
         score_pair self score_core pair_core"
  using assms by (intro ext) (simp add: score_pair_def check_window_size_def)

lemma score_from_prediction_window_agg:
  assumes "\<not> single_series_support self"
    and "pair_core (self\<lparr>window_agg := b\<rparr>) = pair_core self"
  shows "score_from_prediction (self\<lparr>window_agg := b\<rparr>) score_core pair_core
           actual_series pred_series =
         score_from_prediction self score_core pair_core actual_series pred_series"
proof -
  have "score_pair (self\<lparr>window_agg := b\<rparr>) score_core pair_core =
         score_pair self score_core pair_core"
    using assms by (rule score_pair_window_agg)
  then show ?thesis
    by (simp add: score_from_prediction_def check_if_fit_called_def
        check_probabilistic_series_def)
qed

text \<open>
  C6. Let the per-timestamp negative log-likelihood scores of a pair of series exist.
  With window 1 the likelihood scorer returns them as they are. With a larger window
  (not longer than the scores) it returns their rolling mean: the first window - 1 time
  stamps are dropped, so N scores become N - window + 1, and the value at a kept time
  stamp is the mean of the window scores that end there. The flag window_agg changes
  neither the result of the scorer's hook nor that of score_from_prediction.
\<close>

theorem nll_window_smoothing:
  assumes "nll_anomaly_scores nll actual pred = Inr raw"
  shows "(window self = 1 \<longrightarrow> nll_score_core_from_prediction nll self actual pred = Inr raw) \<and>
         (1 < window self \<and> window self \<le> int (len raw) \<and> wf_series raw \<longrightarrow>
            (\<exists>out. nll_score_core_from_prediction nll self actual pred = Inr out \<and>
               len out = len raw - nat (window self) + 1 \<and>
               time_index out = drop (nat (window self) - 1) (time_index raw) \<and>
               (\<forall>j<len out. \<forall>c<width raw. \<forall>s<n_samples raw.
                  all_values out ! j ! c ! s =
                    (\<Sum>k = j..<j + nat (window self). all_values raw ! k ! c ! s)
                      / real (nat (window self))))) \<and>
         nll_score_core_from_prediction nll (self\<lparr>window_agg := b\<rparr>) actual pred =
           nll_score_core_from_prediction nll self actual pred \<and>
         (\<not> single_series_support self \<longrightarrow>
            score_from_prediction (self\<lparr>window_agg := b\<rparr>) score_core
                (nll_score_core_from_prediction nll) actual_series pred_series =
              score_from_prediction self score_core
                (nll_score_core_from_prediction nll) actual_series pred_series)"
proof -
  have one: "nll_score_core_from_prediction nll self actual pred = Inr raw"
    if "window self = 1"
    using that assms
    by (simp add: nll_score_core_from_prediction_def window_adjustment_series_def)
  have more: "\<exists>out. nll_score_core_from_prediction nll self actual pred = Inr out \<and>
               len out = len raw - nat (window self) + 1 \<and>
               time_index out = drop (nat (window self) - 1) (time_index raw) \<and>
               (\<forall>j<len out. \<forall>c<width raw. \<forall>s<n_samples raw.
                  all_values out ! j ! c ! s =
                    (\<Sum>k = j..<j + nat (window self). all_values raw ! k ! c ! s)
                      / real (nat (window self)))"
    if "1 < window self" "window self \<le> int (len raw)" "wf_series raw"
  proof -
    have "nll_score_core_from_prediction nll self actual pred =
            window_transform_rolling_mean (window self) raw"
      using that(1) assms
      by (simp add: nll_score_core_from_prediction_def window_adjustment_series_def)
    then show ?thesis
      using window_transform_rolling_mean_spec [of raw "window self"] that by simp
  qed
  have pub: "score_from_prediction (self\<lparr>window_agg := b\<rparr>) score_core
                (nll_score_core_from_prediction nll) actual_series pred_series =
              score_from_prediction self score_core
                (nll_score_core_from_prediction nll) actual_series pred_series"
    if "\<not> single_series_support self"
  proof -
    have "nll_score_core_from_prediction nll (self\<lparr>window_agg := b\<rparr>) =
            nll_score_core_from_prediction nll self"
      by (intro ext) (rule nll_core_window_agg)
    with that show ?thesis by (rule score_from_prediction_window_agg)
  qed
  show ?thesis
    using one more pub
      nll_core_window_agg [where nll = nll and self = self and b = b and actual = actual
        and pred = pred]
    by blast
qed

lemmas nll_eval =
  nll_anomaly_scores_def extract_deterministic_def is_deterministic_def n_samples_def
  assert_stochastic_def is_stochastic_def width_def column_def squeeze_last_def
  from_times_and_values_def expand_2d_def zip_star_def Let_def

theorem nll_window_smoothing_witness:
  "nll_scorer_init 2 ''abs_diff'' 1 False (Model ()) = Inr (example_nll_scorer 2) \<and>
   nll_anomaly_scores example_nll example_series example_pred_series =
     Inr \<lparr>time_index = [0, 1, 2], all_values = [[[2]], [[3]], [[8]]]\<rparr> \<and>
   wf_series \<lparr>time_index = [0, 1, 2], all_values = [[[2]], [[3]], [[8]]]\<rparr> \<and>
   nll_score_core_from_prediction example_nll (example_nll_scorer 1)
       example_series example_pred_series =
     Inr \<lparr>time_index = [0, 1, 2], all_values = [[[2]], [[3]], [[8]]]\<rparr> \<and>
   nll_score_core_from_prediction example_nll (example_nll_scorer 2)
       example_series example_pred_series =
     Inr \<lparr>time_index = [1, 2], all_values = [[[5 / 2]], [[11 / 2]]]\<rparr> \<and>
   (\<exists>out. nll_score_core_from_prediction example_nll (example_nll_scorer 2)
             example_series example_pred_series = Inr out \<and>
          len out = 2 \<and> time_index out = [1, 2]) \<and>
   nll_score_core_from_prediction example_nll ((example_nll_scorer 2)\<lparr>window_agg := True\<rparr>)
       example_series example_pred_series =
     Inr \<lparr>time_index = [1, 2], all_values = [[[5 / 2]], [[11 / 2]]]\<rparr> \<and>
   score_from_prediction ((example_nll_scorer 2)\<lparr>window_agg := True\<rparr>) (\<lambda>_ s. Inr s)
       (nll_score_core_from_prediction example_nll) (TS example_series) (TS example_pred_series) =
     score_from_prediction (example_nll_scorer 2) (\<lambda>_ s. Inr s)
       (nll_score_core_from_prediction example_nll) (TS example_series) (TS example_pred_series) \<and>
   score_from_prediction (example_nll_scorer 2) (\<lambda>_ s. Inr s)
       (nll_score_core_from_prediction example_nll) (TS example_series) (TS example_pred_series) =
     Inr (TS \<lparr>time_index = [1, 2], all_values = [[[5 / 2]], [[11 / 2]]]\<rparr>)"
proof -
  let ?raw = "\<lparr>time_index = [0, 1, 2], all_values = [[[2]], [[3]], [[8]]]\<rparr>"
  let ?sm = "\<lparr>time_index = [1, 2], all_values = [[[5 / 2]], [[11 / 2]]]\<rparr>"
  have init: "nll_scorer_init 2 ''abs_diff'' 1 False (Model ()) = Inr (example_nll_scorer 2)"
    by (simp add: nll_scorer_init_def scorer_init_def example_nll_scorer_def)
  have raw: "nll_anomaly_scores example_nll example_series example_pred_series = Inr ?raw"
    by (simp add: nll_eval example_nll_def example_series_def example_pred_series_def)
  have wf: "wf_series ?raw"
    by (simp add: wf_series_def has_shape_def width_def n_samples_def)
  note t1 = nll_window_smoothing [OF raw, where self = "example_nll_scorer 1"]
  note t2 = nll_window_smoothing [OF raw, where self = "example_nll_scorer 2" and b = True
      and score_core = "\<lambda>_ s. Inr s" and actual_series = "TS example_series"
      and pred_series = "TS example_pred_series"]
  have w1: "window (example_nll_scorer 1) = 1" and w2: "window (example_nll_scorer 2) = 2"
    and ns: "\<not> single_series_support (example_nll_scorer 2)"
    by (simp_all add: example_nll_scorer_def)
  have 1: "nll_score_core_from_prediction example_nll (example_nll_scorer 1)
       example_series example_pred_series = Inr ?raw"
    using t1 w1 by blast
  have 2: "nll_score_core_from_prediction example_nll (example_nll_scorer 2)
       example_series example_pred_series = Inr ?sm"
    by (simp add: nll_score_core_from_prediction_def raw window_adjustment_series_def
        window_transform_rolling_mean_def len_def mean_axis0_def sum_axis0_def add_rows_def
        example_nll_scorer_def)
  have l3: "len ?raw = 3" by (simp add: len_def)
  have pre: "1 < window (example_nll_scorer 2) \<and>
             window (example_nll_scorer 2) \<le> int (len ?raw) \<and> wf_series ?raw"
    using wf by (simp add: example_nll_scorer_def len_def)
  have "\<exists>out. nll_score_core_from_prediction example_nll (example_nll_scorer 2)
             example_series example_pred_series = Inr out \<and>
          len out = len ?raw - nat (window (example_nll_scorer 2)) + 1 \<and>
          time_index out = drop (nat (window (example_nll_scorer 2)) - 1) (time_index ?raw)"
    using t2 pre by blast
  then have 3: "\<exists>out. nll_score_core_from_prediction example_nll (example_nll_scorer 2)
             example_series example_pred_series = Inr out \<and>
          len out = 2 \<and> time_index out = [1, 2]"
    using l3 by (simp add: w2 numeral_2_eq_2)
  have "nll_score_core_from_prediction example_nll ((example_nll_scorer 2)\<lparr>window_agg := True\<rparr>)
       example_series example_pred_series =
        nll_score_core_from_prediction example_nll (example_nll_scorer 2)
       example_series example_pred_series"
    using t2 by blast
  with 2 have 4: "nll_score_core_from_prediction example_nll
       ((example_nll_scorer 2)\<lparr>window_agg := True\<rparr>) example_series example_pred_series = Inr ?sm"
    by simp
  have 5: "score_from_prediction ((example_nll_scorer 2)\<lparr>window_agg := True\<rparr>) (\<lambda>_ s. Inr s)
       (nll_score_core_from_prediction example_nll) (TS example_series) (TS example_pred_series) =
     score_from_prediction (example_nll_scorer 2) (\<lambda>_ s. Inr s)
       (nll_score_core_from_prediction example_nll) (TS example_series) (TS example_pred_series)"
    using t2 ns by blast
  have 6: "score_from_prediction (example_nll_scorer 2) (\<lambda>_ s. Inr s)
       (nll_score_core_from_prediction example_nll) (TS example_series) (TS example_pred_series) =
     Inr (TS ?sm)"
    by (simp add: score_from_prediction_def check_ts_or_list_ts_def isinstance_list_def
        assert_timeseries_def series2seq_def attr_series_def check_probabilistic_series_def
        assert_same_length_def score_pair_def sanity_check_two_series_def intersect_def
        slice_intersect_def check_window_size_def result_of_def isinstance_Sequence_def
        nll_score_core_from_prediction_def nll_eval window_adjustment_series_def
        window_transform_rolling_mean_def len_def mean_axis0_def sum_axis0_def add_rows_def
        example_nll_scorer_def example_nll_def example_series_def example_pred_series_def)
  show ?thesis using init raw wf 1 2 3 4 5 6 by blast
qed

section \<open>The length of the scores of a windowed scorer\<close>

lemma length_concat_uniform:
  assumes "\<And>x. x \<in> set xs \<Longrightarrow> length x = n"
  shows "length (concat xs) = length xs * n"
  using assms by (induction xs) simp_all

lemma extract_deterministic_wf:
  assumes wf: "wf_series s" and ns: "1 \<le> n_samples s"
  shows "wf_series (fst (extract_deterministic s nm))"
    and "n_samples (fst (extract_deterministic s nm)) = 1"
    and "len (fst (extract_deterministic s nm)) = len s"
    and "width (fst (extract_deterministic s nm)) = width s"
    and "time_index (fst (extract_deterministic s nm)) = time_index s"
proof -
  let ?q = "quantile_timeseries (1 / 2) s"
  have w: "width ?q = width s"
    by (simp add: width_def quantile_timeseries_def split: list.splits)
  have n: "n_samples ?q = 1" if "n_samples s \<noteq> 1"
    using that ns by (intro n_samples_quantile) simp
  have "list_all (has_shape (width s) 1) (all_values ?q)" 
    using wf by (auto simp: wf_series_def quantile_timeseries_def has_shape_def list_all_iff)
  then have q: "wf_series ?q" if "n_samples s \<noteq> 1"
    using wf w n [OF that] by (simp add: wf_series_def) (simp add: quantile_timeseries_def)
  show "wf_series (fst (extract_deterministic s nm))"
    using wf q by (simp add: extract_deterministic_def is_deterministic_def)
  show "n_samples (fst (extract_deterministic s nm)) = 1"
    using n by (simp add: extract_deterministic_def is_deterministic_def)
  show "len (fst (extract_deterministic s nm)) = len s"
    by (simp add: extract_deterministic_def len_def quantile_timeseries_def)
  show "width (fst (extract_deterministic s nm)) = width s"
    using w by (simp add: extract_deterministic_def)
  show "time_index (fst (extract_deterministic s nm)) = time_index s"
    by (simp add: extract_deterministic_def quantile_timeseries_def)
qed

text \<open>The sliding view of an array that is at least as long as the window.\<close>

lemma sliding_window_view_ok:
  assumes "1 \<le> w" "w \<le> int (length arr)"
  shows "sliding_window_view arr w =
           Inr (map (\<lambda>i. map (\<lambda>c. map (\<lambda>s. map (\<lambda>k. arr ! (i + k) ! c ! s) [0..<nat w])
                                        [0..<length (hd (hd arr))])
                          [0..<length (hd arr)])
                  [0..<length arr - nat w + 1])"
  using assms by (simp add: sliding_window_view_def)

lemma flat_view_length:
  fixes f :: "nat \<Rightarrow> nat \<Rightarrow> nat \<Rightarrow> nat \<Rightarrow> real"
  shows "length (concat (concat (concat
           (map (\<lambda>i. map (\<lambda>c. map (\<lambda>s. map (\<lambda>k. f i c s k) [0..<W]) [0..<S]) [0..<C]) [0..<R])))) =
         R * C * S * W"
proof -
  let ?v = "map (\<lambda>i. map (\<lambda>c. map (\<lambda>s. map (\<lambda>k. f i c s k) [0..<W]) [0..<S]) [0..<C]) [0..<R]"
  have "length (concat ?v) = length ?v * C"
    by (rule length_concat_uniform) auto
  then have 1: "length (concat ?v) = R * C" by simp
  have "length (concat (concat ?v)) = length (concat ?v) * S"
    by (rule length_concat_uniform) auto
  with 1 have 2: "length (concat (concat ?v)) = R * C * S" by simp
  have "length (concat (concat (concat ?v))) = length (concat (concat ?v)) * W"
    by (rule length_concat_uniform) auto
  with 2 show ?thesis by simp
qed

lemma reshape_rows_ok:
  assumes "0 < n" "length flat = r * n"
  shows "\<exists>rows. reshape_rows n flat = Inr rows \<and> length rows = r \<and>
           (\<forall>x \<in> set rows. length x = n)"
proof -
  have "length flat mod n = 0" "length flat div n = r" using assms by simp_all
  moreover have "length (take n (drop (k * n) flat)) = n" if "k < r" for k
  proof -
    have "k * n + n \<le> r * n" using that by (metis Suc_leI mult_Suc mult_le_mono1 add.commute)
    then show ?thesis using assms(2) by simp
  qed
  ultimately show ?thesis
    using assms(1) by (auto simp: reshape_rows_def)
qed

lemma tabularize_rows_ok:
  assumes w: "1 \<le> window self" "window self \<le> int (length arr)"
    and c: "0 < length (hd arr)" and s: "length (hd (hd arr)) = 1"
  shows "\<exists>rows. tabularize_rows self arr = Inr rows \<and>
           length rows = length arr - nat (window self) + 1"
proof -
  define W where "W = nat (window self)"
  define C where "C = length (hd arr)"
  define R where "R = length arr - nat (window self) + 1"
  let ?v = "map (\<lambda>i. map (\<lambda>c. map (\<lambda>s. map (\<lambda>k. arr ! (i + k) ! c ! s) [0..<W]) [0..<1]) [0..<C])
                  [0..<R]"
  have v: "sliding_window_view arr (window self) = Inr ?v"
    using sliding_window_view_ok [OF w] unfolding W_def C_def R_def s by simp
  have "length (concat (concat (concat ?v))) = R * C * 1 * W"
    by (rule flat_view_length)
  then have "length (concat (concat (concat ?v))) = R * (W * C)"
    by (simp only: mult_1_right mult.assoc mult.commute [of C W])
  moreover have "0 < W * C" using w c by (simp add: W_def C_def)
  ultimately obtain rows where "reshape_rows (W * C) (concat (concat (concat ?v))) = Inr rows"
    "length rows = R"
    using reshape_rows_ok [of "W * C" "concat (concat (concat ?v))" R] by blast
  then show ?thesis
    unfolding tabularize_rows_def v and_then_Inr W_def C_def R_def by blast
qed

lemma tabularize_components_ok:
  assumes w: "1 \<le> window self" "window self \<le> int (length arr)"
    and c: "0 < length (hd arr)" and s: "length (hd (hd arr)) = 1"
  shows "\<exists>tab. tabularize_components self arr = Inr tab \<and>
           length tab = length (hd arr) \<and>
           (\<forall>g \<in> set tab. length g = length arr - nat (window self) + 1)"
proof -
  define W where "W = nat (window self)"
  define C where "C = length (hd arr)"
  define R where "R = length arr - nat (window self) + 1"
  define F where "F = (\<lambda>i c. map (\<lambda>s. map (\<lambda>k. arr ! (i + k) ! c ! s) [0..<W]) [0..<1])"
  let ?v = "map (\<lambda>i. map (\<lambda>c. F i c) [0..<C]) [0..<R]"
  let ?st = "map (\<lambda>c. map (\<lambda>i. F i c) [0..<R]) [0..<C]"
  have pos: "0 < W" "0 < C" "0 < R" using w c by (simp_all add: W_def C_def R_def)
  have v: "sliding_window_view arr (window self) = Inr ?v"
    using sliding_window_view_ok [OF w] unfolding W_def C_def R_def F_def s by simp
  have st: "stack_axis1 C ?v = ?st"
    by (simp add: stack_axis1_def)
  have "length (concat (concat (concat ?st))) = C * R * 1 * W"
    unfolding F_def by (rule flat_view_length)
  then have "length (concat (concat (concat ?st))) = (C * R) * W" by simp
  then obtain rows where rows: "reshape_rows W (concat (concat (concat ?st))) = Inr rows"
    "length rows = C * R"
    using reshape_rows_ok [OF pos(1), of "concat (concat (concat ?st))" "C * R"] by blast
  from rows(2) pos have m: "\<not> (C = 0 \<or> length rows mod C \<noteq> 0)" "length rows div C = R"
    by simp_all
  obtain tab where tab: "reshape_rows R rows = Inr tab" "length tab = C"
    "\<forall>g \<in> set tab. length g = R"
    using reshape_rows_ok [OF pos(3), of rows C] rows(2) by blast
  have "tabularize_components self arr = Inr tab"
    unfolding tabularize_components_def v and_then_Inr
    unfolding C_def [symmetric] W_def [symmetric] st rows(1) and_then_Inr
    using m tab(1) by simp
  with tab(2,3) show ?thesis unfolding C_def R_def by blast
qed

lemma series_head:
  assumes "n_samples s = 1"
  shows "length (hd (hd (all_values s))) = 1" and "0 < length (hd (all_values s))"
    and "width s = length (hd (all_values s))" and "0 < len s"
  using assms by (auto simp: n_samples_def width_def len_def split: list.splits)

lemma py_slice_from_drop:
  assumes "1 \<le> w" "w \<le> int (length xs)"
  shows "py_slice_from xs (w - 1) = drop (nat w - 1) xs"
    and "length (py_slice_from xs (w - 1)) = length xs - nat w + 1"
proof -
  have "slice_bound (length xs) (w - 1) = nat w - 1"
    using assms by (auto simp: slice_bound_def)
  then show "py_slice_from xs (w - 1) = drop (nat w - 1) xs"
    by (simp add: py_slice_from_def)
  then show "length (py_slice_from xs (w - 1)) = length xs - nat w + 1"
    using assms by auto
qed

lemma wf_expand_1d:
  assumes "sorted_wrt (<) tms" "length tms = length xs"
  shows "wf_series \<lparr>time_index = tms, all_values = expand_1d xs\<rparr>"
  using assms
  by (cases xs)
     (auto simp: wf_series_def expand_1d_def width_def n_samples_def has_shape_def list_all_iff)

lemma wf_expand_2d:
  assumes "sorted_wrt (<) tms" "length tms = length xs" "\<forall>x \<in> set xs. length x = k"
  shows "wf_series \<lparr>time_index = tms, all_values = expand_2d xs\<rparr>"
proof (cases xs)
  case Nil
  with assms show ?thesis
    by (simp add: wf_series_def expand_2d_def)
next
  case (Cons x rest)
  show ?thesis
  proof (cases x)
    case Nil
    with Cons assms(3) have "\<forall>x \<in> set xs. x = []" by auto
    then have "list_all (\<lambda>r. r = []) (expand_2d xs)"
      by (auto simp: expand_2d_def list_all_iff)
    with Cons Nil assms(1,2) show ?thesis
      by (auto simp: wf_series_def expand_2d_def width_def n_samples_def has_shape_def
          list_all_iff)
  next
    case (Cons y ys)
    with \<open>xs = x # rest\<close> assms show ?thesis
      by (auto simp: wf_series_def expand_2d_def width_def n_samples_def has_shape_def
          list_all_iff)
  qed
qed

lemma rows_branch:
  assumes wf: "wf_series s" and ns: "n_samples s = 1"
    and w: "1 \<le> window self" "window self \<le> int (len s)"
    and msm: "\<And>m rows. length (msm m rows) = length rows"
  shows "\<exists>out. and_then (tabularize_rows self (all_values s)) (\<lambda>tabular_data.
                 from_times_and_values (py_slice_from (time_index s) (window self - 1))
                   (expand_1d (msm (model self) tabular_data))) = Inr out \<and>
               len out = len s - nat (window self) + 1 \<and>
               time_index out = drop (nat (window self) - 1) (time_index s) \<and>
               wf_series out"
proof -
  let ?arr = "all_values s"
  define R where "R = len s - nat (window self) + 1"
  define tms where "tms = py_slice_from (time_index s) (window self - 1)"
  have w': "window self \<le> int (length ?arr)" "window self \<le> int (length (time_index s))"
    using w(2) wf by (simp_all add: len_def wf_series_def)
  obtain rows where rows: "tabularize_rows self ?arr = Inr rows" "length rows = R"
    using tabularize_rows_ok [OF w(1) w'(1) series_head(2) [OF ns] series_head(1) [OF ns]]
    unfolding R_def len_def by blast
  have tms: "tms = drop (nat (window self) - 1) (time_index s)" "length tms = R"
    using py_slice_from_drop [OF w(1) w'(2)] wf
    by (simp_all add: tms_def R_def len_def wf_series_def)
  let ?sc = "msm (model self) rows"
  let ?out = "\<lparr>time_index = tms, all_values = expand_1d ?sc\<rparr>"
  have l: "length ?sc = R" using msm rows(2) by simp
  have run: "from_times_and_values tms (expand_1d ?sc) = Inr ?out"
    using l tms(2) by (simp add: from_times_and_values_def expand_1d_def)
  have "sorted_wrt (<) tms"
    using wf unfolding tms(1) by (simp add: wf_series_def sorted_wrt_drop)
  then have "wf_series ?out"
    using l tms(2) by (intro wf_expand_1d) simp_all
  moreover have "len ?out = R" using l by (simp add: len_def expand_1d_def)
  ultimately show ?thesis
    unfolding rows(1) and_then_Inr tms_def [symmetric] run
    using tms(1) by (simp add: R_def)
qed

lemma fold_min_uniform:
  assumes "\<forall>x \<in> set xs. f x = n"
  shows "fold min (map f xs) n = (n :: nat)"
  using assms by (induction xs) simp_all

lemma zip_star_uniform:
  assumes "rows \<noteq> []" "\<forall>r \<in> set rows. length r = n"
  shows "zip_star rows = map (\<lambda>t. map (\<lambda>x. x ! t) rows) [0..<n]"
proof -
  obtain r rs where rows: "rows = r # rs" using assms(1) by (cases rows) auto
  then have "length r = n" "\<forall>x \<in> set rs. length x = n" using assms(2) by auto
  then have "fold min (map length rs) (length r) = n"
    using fold_min_uniform [of rs length n] by simp
  then show ?thesis by (simp add: zip_star_def rows)
qed

lemma py_slice_whole:
  assumes "hi = int (length xs)"
  shows "py_slice xs 0 hi = xs"
  using assms by (simp add: py_slice_def slice_bound_def)

lemma concatenate_axis1_single: "concatenate_axis1 [tab] = Inr tab"
  by (simp add: concatenate_axis1_def map_nth)

lemma np_array2_uniform:
  assumes "rows \<noteq> []" "\<forall>r \<in> set rows. length r = n"
  shows "np_array2 rows = Inr rows"
  using assms by (cases rows) (auto simp: np_array2_def list_all_iff)

lemma components_branch:
  assumes wf: "wf_series s" and ns: "n_samples s = 1"
    and w: "1 \<le> window self" "window self \<le> int (len s)"
    and msm: "\<And>m rows. length (msm m rows) = length rows"
    and model: "model self = Models ms" and ms: "ms \<noteq> []"
  shows "\<exists>out. and_then (tabularize_components self (all_values s)) (\<lambda>tab.
               and_then (concatenate_axis1 [tab]) (\<lambda>tabular_data.
                 case model self of
                   Model _ \<Rightarrow> Inl TypeError
                 | Models ms \<Rightarrow>
                     and_then (np_array2 (map (\<lambda>(m, d). msm (Model m) d)
                                            (zip ms tabular_data))) (\<lambda>list_np_anomaly_score.
                     and_then (convert_tabular_to_series self 0 [s] list_np_anomaly_score)
                       first))) = Inr out \<and>
               len out = len s - nat (window self) + 1 \<and>
               time_index out = drop (nat (window self) - 1) (time_index s) \<and>
               wf_series out"
proof -
  let ?arr = "all_values s"
  define R where "R = len s - nat (window self) + 1"
  define tms where "tms = py_slice_from (time_index s) (window self - 1)"
  have w': "window self \<le> int (length ?arr)" "window self \<le> int (length (time_index s))"
    using w(2) wf by (simp_all add: len_def wf_series_def)
  obtain tab where tab: "tabularize_components self ?arr = Inr tab"
    "length tab = length (hd ?arr)" "\<forall>g \<in> set tab. length g = R"
    using tabularize_components_ok [OF w(1) w'(1) series_head(2) [OF ns] series_head(1) [OF ns]]
    unfolding R_def len_def by blast
  have tms: "tms = drop (nat (window self) - 1) (time_index s)" "length tms = R"
    using py_slice_from_drop [OF w(1) w'(2)] wf
    by (simp_all add: tms_def R_def len_def wf_series_def)
  define scores where "scores = map (\<lambda>(m, d). msm (Model m) d) (zip ms tab)"
  have "tab \<noteq> []" using tab(2) series_head(2) [OF ns] by auto
  then have ne: "scores \<noteq> []" using ms by (cases ms; cases tab) (simp_all add: scores_def)
  have un: "\<forall>r \<in> set scores. length r = R"
    using tab(3) msm by (auto simp: scores_def dest: set_zip_rightD)
  have arr: "np_array2 scores = Inr scores" using ne un by (rule np_array2_uniform)
  have hi: "int (len s) - window self + 1 = int R"
    using w by (simp add: R_def)
  have sl: "map (\<lambda>row. py_slice row 0 (int (len s) - window self + 1)) scores = scores"
    unfolding hi using un by (intro map_idI py_slice_whole) simp
  let ?cols = "map (\<lambda>t. map (\<lambda>x. x ! t) scores) [0..<R]"
  have zs: "zip_star scores = ?cols" using ne un by (rule zip_star_uniform)
  let ?out = "\<lparr>time_index = tms, all_values = expand_2d ?cols\<rparr>"
  have run: "from_times_and_values tms (expand_2d ?cols) = Inr ?out"
    using tms(2) by (simp add: from_times_and_values_def expand_2d_def)
  have conv: "convert_tabular_to_series self 0 [s] scores = Inr [?out]"
    by (simp add: sl zs tms_def [symmetric] run)
  have "sorted_wrt (<) tms"
    using wf unfolding tms(1) by (simp add: wf_series_def sorted_wrt_drop)
  then have "wf_series ?out"
    using tms(2) by (intro wf_expand_2d [where k = "length scores"]) auto
  moreover have "len ?out = R" by (simp add: len_def expand_2d_def)
  ultimately show ?thesis
    unfolding tab(1) and_then_Inr concatenate_axis1_single model model_obj.case
      scores_def [symmetric] arr conv
    using tms(1) by (simp add: R_def)
qed

lemma and_then_assoc:
  "and_then (and_then m f) g = and_then m (\<lambda>x. and_then (f x) g)"
  by (cases m) simp_all

lemma and_then_Inr_right: "and_then m Inr = m"
  by (cases m) simp_all

lemma tabularize_rows_window_agg:
  "tabularize_rows (self\<lparr>window_agg := b\<rparr>) = tabularize_rows self"
  by (rule ext) (simp add: tabularize_rows_def)

lemma tabularize_components_window_agg:
  "tabularize_components (self\<lparr>window_agg := b\<rparr>) = tabularize_components self"
  by (rule ext) (simp add: tabularize_components_def)

lemma convert_tabular_to_series_window_agg:
  "convert_tabular_to_series (self\<lparr>window_agg := b\<rparr>) indice list_series scores =
   convert_tabular_to_series self indice list_series scores"
  by (induction list_series arbitrary: indice) simp_all

text \<open>
  The result with window aggregation is the aggregation of the result without it.
\<close>

lemma windowed_score_core_agg:
  "windowed_score_core msm self s =
     and_then (windowed_score_core msm (self\<lparr>window_agg := False\<rparr>) s) (\<lambda>raw.
       if window self > 1 \<and> window_agg self
       then and_then (fun_window_agg [raw] (window self)) first
       else Inr raw)"
  by (cases "model self")
     (simp_all add: windowed_score_core_def tabularize_rows_window_agg
        tabularize_components_window_agg convert_tabular_to_series_window_agg
        and_then_assoc and_then_Inr_right)

lemma windowed_score_core_raw:
  assumes wf: "wf_series s" and ns: "n_samples s = 1"
    and w: "1 \<le> window self" "window self \<le> int (len s)"
    and msm: "\<And>m rows. length (msm m rows) = length rows"
    and trained: "width_trained_on self = Some (width s)"
    and cw: "component_wise self \<and> width s \<noteq> 1 \<longrightarrow> (\<exists>ms. model self = Models ms \<and> ms \<noteq> [])"
  shows "\<exists>raw. windowed_score_core msm (self\<lparr>window_agg := False\<rparr>) s = Inr raw \<and>
               len raw = len s - nat (window self) + 1 \<and>
               time_index raw = drop (nat (window self) - 1) (time_index s) \<and>
               wf_series raw"
proof -
  let ?off = "self\<lparr>window_agg := False\<rparr>"
  have w': "1 \<le> window ?off" "window ?off \<le> int (len s)" using w by simp_all
  show ?thesis
  proof (cases "\<not> component_wise self \<or> width s = 1")
    case True
    then show ?thesis
      using rows_branch [where self = ?off and msm = msm, OF wf ns w' msm] trained
      by (simp add: windowed_score_core_def and_then_Inr_right)
  next
    case False
    with cw obtain ms where ms: "model ?off = Models ms" "ms \<noteq> []" by auto
    show ?thesis
      using False trained
        components_branch [where self = ?off and msm = msm, OF wf ns w' msm ms]
      by (simp add: windowed_score_core_def and_then_Inr_right)
  qed
qed

lemma windowed_score_core_length:
  assumes wf: "wf_series s" and ns: "n_samples s = 1"
    and w: "1 \<le> window self" "window self \<le> int (len s)"
    and msm: "\<And>m rows. length (msm m rows) = length rows"
    and trained: "width_trained_on self = Some (width s)"
    and cw: "component_wise self \<and> width s \<noteq> 1 \<longrightarrow> (\<exists>ms. model self = Models ms \<and> ms \<noteq> [])"
  shows "\<exists>out raw.
           windowed_score_core msm self s = Inr out \<and>
           windowed_score_core msm (self\<lparr>window_agg := False\<rparr>) s = Inr raw \<and>
           len out = len s - nat (window self) + 1 \<and>
           len raw = len s - nat (window self) + 1 \<and>
           time_index out = drop (nat (window self) - 1) (time_index s) \<and>
           time_index raw = drop (nat (window self) - 1) (time_index s) \<and>
           (\<not> (1 < window self \<and> window_agg self) \<longrightarrow> out = raw) \<and>
           (1 < window self \<and> window_agg self \<longrightarrow>
              (\<forall>i<len raw. \<forall>c<width raw. \<forall>k<n_samples raw.
                 all_values out ! i ! c ! k =
                   (\<Sum>j = i..<min (i + nat (window self)) (len raw). all_values raw ! j ! c ! k)
                     / real (min (i + nat (window self)) (len raw) - i)))"
proof -
  obtain raw where raw: "windowed_score_core msm (self\<lparr>window_agg := False\<rparr>) s = Inr raw"
    "len raw = len s - nat (window self) + 1"
    "time_index raw = drop (nat (window self) - 1) (time_index s)" "wf_series raw"
    using windowed_score_core_raw [where msm = msm, OF wf ns w msm trained cw] by blast
  have core: "windowed_score_core msm self s =
          (if window self > 1 \<and> window_agg self
           then and_then (fun_window_agg [raw] (window self)) first
           else Inr raw)"
    by (subst windowed_score_core_agg) (simp add: raw(1))
  show ?thesis
  proof (cases "window self > 1 \<and> window_agg self")
    case False
    with core raw show ?thesis by auto
  next
    case True
    obtain out where out: "window_agg_one (window self) raw = Inr out"
      "len out = len raw" "time_index out = time_index raw"
      "\<forall>i<len raw. \<forall>c<width raw. \<forall>k<n_samples raw.
         all_values out ! i ! c ! k =
           (\<Sum>j = i..<min (i + nat (window self)) (len raw). all_values raw ! j ! c ! k)
             / real (min (i + nat (window self)) (len raw) - i)"
      using window_agg_one_spec [OF raw(4) w(1)] by blast
    have "windowed_score_core msm self s = Inr out"
      using core True out(1) by (simp add: fun_window_agg_def)
    with out(2,3,4) raw(1,2,3) True show ?thesis by auto
  qed
qed

lemmas windowed_eval =
  score_def check_single_series_support_def check_if_fit_called_def series2seq_def
  assert_timeseries_def check_window_size_def len_def extract_deterministic_def
  is_deterministic_def n_samples_def result_of_def isinstance_Sequence_def
  windowed_score_core_def width_def tabularize_rows_def sliding_window_view_def
  reshape_rows_def from_times_and_values_def py_slice_from_def slice_bound_def
  expand_1d_def sum_score_method_def fun_window_agg_def window_agg_one_def py_slice_def
  mean_axis0_def sum_axis0_def add_rows_def Let_def

text \<open>
  C1, as stated, fails for window aggregation: a scorer with window 2 and window
  aggregation on, fitted on a series of length 3, scores that series with a series of
  length 2, not 3.
\<close>

theorem score_length_window_agg_counterexample:
  "fit (example_scorer (Model ())) (\<lambda>_ _. Inr (Model ())) (TS example_series) =
     (Inr (), (example_scorer (Model ()))\<lparr>width_trained_on := Some 1, fit_called := Some True\<rparr>) \<and>
   window_agg ((example_scorer (Model ()))\<lparr>width_trained_on := Some 1, fit_called := Some True\<rparr>)
     = True \<and>
   window ((example_scorer (Model ()))\<lparr>width_trained_on := Some 1, fit_called := Some True\<rparr>)
     = 2 \<and>
   len example_series = 3 \<and>
   score ((example_scorer (Model ()))\<lparr>width_trained_on := Some 1, fit_called := Some True\<rparr>)
       (windowed_score_core sum_score_method) (TS example_series) =
     Inr (TS \<lparr>time_index = [1, 2], all_values = [[[11 / 2]], [[8]]]\<rparr>) \<and>
   len \<lparr>time_index = [1, 2], all_values = [[[11 / 2]], [[8]]]\<rparr> = 2"
proof -
  have 1: "fit (example_scorer (Model ())) (\<lambda>_ _. Inr (Model ())) (TS example_series) =
     (Inr (), (example_scorer (Model ()))\<lparr>width_trained_on := Some 1, fit_called := Some True\<rparr>)"
    by (simp add: fit_eval example_defs)
  have 2: "score ((example_scorer (Model ()))\<lparr>width_trained_on := Some 1, fit_called := Some True\<rparr>)
       (windowed_score_core sum_score_method) (TS example_series) =
     Inr (TS \<lparr>time_index = [1, 2], all_values = [[[11 / 2]], [[8]]]\<rparr>)"
    by (simp add: windowed_eval example_defs upt_rec)
  show ?thesis
    using 1 2 by (simp add: example_scorer_def example_series_def len_def)
qed

text \<open>
  C1, amended. Let a windowed scorer be fitted, let its recorded width (the attribute
  \<^verbatim>\<open>width_trained_on\<close>, which the last call of fit has set, also when that call
  failed) be the width of the input, let the window lie between 1 and the length of the
  input, let the inference method return one score for each row, and, for a
  component-wise scorer on a multivariate input, let the model hold one sub-model for
  each component. Then score returns a series of length len(series) - window + 1 over
  the time index without its first window - 1 stamps, whether window aggregation is on
  or off. With window aggregation off, or window 1, these are the window-wise scores;
  with window aggregation on and a window above 1 the value at index i is the mean of
  the window-wise scores at the indices from i up to, but not including, i + window, cut
  off at the end.
\<close>

theorem score_length_windowed:
  assumes "single_series_support self"
    and "fit_called self = Some True"
    and "width_trained_on self = Some (width series)"
    and "wf_series series" and "1 \<le> n_samples series"
    and "1 \<le> window self" and "window self \<le> int (len series)"
    and "\<forall>m rows. length (model_score_method m rows) = length rows"
    and "component_wise self \<and> width series \<noteq> 1 \<longrightarrow>
           (\<exists>ms. model self = Models ms \<and> length ms = width series)"
  shows "\<exists>out raw.
           score self (windowed_score_core model_score_method) (TS series) = Inr (TS out) \<and>
           score (self\<lparr>window_agg := False\<rparr>) (windowed_score_core model_score_method)
             (TS series) = Inr (TS raw) \<and>
           len out = len series - nat (window self) + 1 \<and>
           len raw = len series - nat (window self) + 1 \<and>
           time_index out = drop (nat (window self) - 1) (time_index series) \<and>
           time_index raw = drop (nat (window self) - 1) (time_index series) \<and>
           (\<not> (1 < window self \<and> window_agg self) \<longrightarrow> out = raw) \<and>
           (1 < window self \<and> window_agg self \<longrightarrow>
              (\<forall>i<len raw. \<forall>c<width raw. \<forall>k<n_samples raw.
                 all_values out ! i ! c ! k =
                   (\<Sum>j = i..<min (i + nat (window self)) (len raw). all_values raw ! j ! c ! k)
                     / real (min (i + nat (window self)) (len raw) - i)))"
proof -
  let ?d = "fst (extract_deterministic series ''series'')"
  let ?core = "windowed_score_core model_score_method"
  note d = extract_deterministic_wf [OF assms(4,5), of "''series''"]
  have w: "window self \<le> int (len ?d)" using assms(7) d(3) by simp
  have tr: "width_trained_on self = Some (width ?d)" using assms(3) d(4) by simp
  have "0 < width series"
    using assms(5) by (auto simp: n_samples_def width_def split: list.splits)
  with assms(9) have cw: "component_wise self \<and> width ?d \<noteq> 1 \<longrightarrow>
           (\<exists>ms. model self = Models ms \<and> ms \<noteq> [])"
    unfolding d(4) by auto
  have msm: "\<And>m rows. length (model_score_method m rows) = length rows"
    using assms(8) by blast
  obtain out raw where core:
    "?core self ?d = Inr out" "?core (self\<lparr>window_agg := False\<rparr>) ?d = Inr raw"
    and props:
    "len out = len ?d - nat (window self) + 1"
    "len raw = len ?d - nat (window self) + 1"
    "time_index out = drop (nat (window self) - 1) (time_index ?d)"
    "time_index raw = drop (nat (window self) - 1) (time_index ?d)"
    "\<not> (1 < window self \<and> window_agg self) \<longrightarrow> out = raw"
    "1 < window self \<and> window_agg self \<longrightarrow>
       (\<forall>i<len raw. \<forall>c<width raw. \<forall>k<n_samples raw.
          all_values out ! i ! c ! k =
            (\<Sum>j = i..<min (i + nat (window self)) (len raw). all_values raw ! j ! c ! k)
              / real (min (i + nat (window self)) (len raw) - i))"
    using windowed_score_core_length
      [where msm = model_score_method, OF d(1,2) assms(6) w msm tr cw]
    by blast
  have 1: "score self ?core (TS series) = Inr (TS out)"
    using assms(1,2,7) core(1)
    by (simp add: score_def check_single_series_support_def check_if_fit_called_def
        series2seq_def assert_timeseries_def check_window_size_def result_of_def
        isinstance_Sequence_def)
  have 2: "score (self\<lparr>window_agg := False\<rparr>) ?core (TS series) = Inr (TS raw)"
    using assms(1,2,7) core(2)
    by (simp add: score_def check_single_series_support_def check_if_fit_called_def
        series2seq_def assert_timeseries_def check_window_size_def result_of_def
        isinstance_Sequence_def)
  show ?thesis
    using 1 2 props unfolding d(3,5) by blast
qed

theorem score_length_windowed_witness:
  "wf_series example_series \<and> n_samples example_series = 1 \<and> len example_series = 3 \<and>
   window ((example_scorer (Model ()))\<lparr>width_trained_on := Some 1, fit_called := Some True\<rparr>) = 2 \<and>
   window_agg ((example_scorer (Model ()))\<lparr>width_trained_on := Some 1, fit_called := Some True\<rparr>)
     = True \<and>
   score ((example_scorer (Model ()))\<lparr>width_trained_on := Some 1, fit_called := Some True\<rparr>)
       (windowed_score_core sum_score_method) (TS example_series) =
     Inr (TS \<lparr>time_index = [1, 2], all_values = [[[11 / 2]], [[8]]]\<rparr>) \<and>
   score ((example_scorer (Model ()))
            \<lparr>width_trained_on := Some 1, fit_called := Some True, window_agg := False\<rparr>)
       (windowed_score_core sum_score_method) (TS example_series) =
     Inr (TS \<lparr>time_index = [1, 2], all_values = [[[3]], [[8]]]\<rparr>) \<and>
   (\<exists>out raw.
      score ((example_scorer (Model ()))\<lparr>width_trained_on := Some 1, fit_called := Some True\<rparr>)
          (windowed_score_core sum_score_method) (TS example_series) = Inr (TS out) \<and>
      score ((example_scorer (Model ()))
               \<lparr>width_trained_on := Some 1, fit_called := Some True, window_agg := False\<rparr>)
          (windowed_score_core sum_score_method) (TS example_series) = Inr (TS raw) \<and>
      len out = 2 \<and> len raw = 2 \<and> time_index out = [1, 2] \<and> time_index raw = [1, 2] \<and>
      all_values out ! 0 ! 0 ! 0 =
        (all_values raw ! 0 ! 0 ! 0 + all_values raw ! 1 ! 0 ! 0) / 2) \<and>
   wf_series \<lparr>time_index = [0, 1, 2], all_values = [[[1], [10]], [[2], [20]], [[6], [60]]]\<rparr> \<and>
   (\<exists>out. score ((example_scorer (Models [(), ()]))
                   \<lparr>width_trained_on := Some 2, fit_called := Some True, component_wise := True\<rparr>)
            (windowed_score_core sum_score_method)
            (TS \<lparr>time_index = [0, 1, 2], all_values = [[[1], [10]], [[2], [20]], [[6], [60]]]\<rparr>) =
              Inr (TS out) \<and>
          len out = 2 \<and> time_index out = [1, 2])"
proof -
  let ?on = "(example_scorer (Model ()))\<lparr>width_trained_on := Some 1, fit_called := Some True\<rparr>
               :: unit scorer"
  let ?off = "(example_scorer (Model ()))
                \<lparr>width_trained_on := Some 1, fit_called := Some True, window_agg := False\<rparr>
               :: unit scorer"
  let ?cw = "(example_scorer (Models [(), ()]))
                \<lparr>width_trained_on := Some 2, fit_called := Some True, component_wise := True\<rparr>
               :: unit scorer"
  let ?two = "\<lparr>time_index = [0, 1, 2], all_values = [[[1], [10]], [[2], [20]], [[6], [60]]]\<rparr>"
  let ?msm = "sum_score_method :: unit score_method"
  let ?r = "\<lparr>time_index = [1, 2], all_values = [[[3]], [[8]]]\<rparr>"
  have wf: "wf_series example_series" "wf_series ?two"
    by (simp_all add: wf_series_def has_shape_def width_def n_samples_def example_series_def)
  have n: "n_samples example_series = 1" "n_samples ?two = 1"
    by (simp_all add: n_samples_def example_series_def)
  have l: "len example_series = 3" "len ?two = 3"
    by (simp_all add: len_def example_series_def)
  have wd: "width example_series = 1" "width ?two = 2"
    by (simp_all add: width_def example_series_def)
  have msm: "\<forall>m rows. length (?msm m rows) = length rows"
    by (simp add: sum_score_method_def)
  have w: "window ?on = 2" "window ?cw = 2" "window_agg ?on = True"
    by (simp_all add: example_scorer_def)
  have t: "drop (nat 2 - 1) (time_index example_series) = [1, 2]"
    "drop (nat 2 - 1) (time_index ?two) = [1, 2]"
    by (simp_all add: example_series_def)
  have e_on: "score ?on (windowed_score_core ?msm) (TS example_series) =
     Inr (TS \<lparr>time_index = [1, 2], all_values = [[[11 / 2]], [[8]]]\<rparr>)"
    by (simp add: windowed_eval example_defs upt_rec)
  have e_off: "score ?off (windowed_score_core ?msm) (TS example_series) = Inr (TS ?r)"
    by (simp add: windowed_eval example_defs upt_rec)
  have "\<exists>out raw.
           score ?on (windowed_score_core ?msm) (TS example_series) = Inr (TS out) \<and>
           score (?on\<lparr>window_agg := False\<rparr>) (windowed_score_core ?msm)
             (TS example_series) = Inr (TS raw) \<and>
           len out = len example_series - nat (window ?on) + 1 \<and>
           len raw = len example_series - nat (window ?on) + 1 \<and>
           time_index out = drop (nat (window ?on) - 1) (time_index example_series) \<and>
           time_index raw = drop (nat (window ?on) - 1) (time_index example_series) \<and>
           (\<not> (1 < window ?on \<and> window_agg ?on) \<longrightarrow> out = raw) \<and>
           (1 < window ?on \<and> window_agg ?on \<longrightarrow>
              (\<forall>i<len raw. \<forall>c<width raw. \<forall>k<n_samples raw.
                 all_values out ! i ! c ! k =
                   (\<Sum>j = i..<min (i + nat (window ?on)) (len raw). all_values raw ! j ! c ! k)
                     / real (min (i + nat (window ?on)) (len raw) - i)))"
    using wf(1) n(1) l(1) wd(1) msm
    by (intro score_length_windowed) (simp_all add: example_scorer_def)
  then obtain out raw where
    o1: "score ?on (windowed_score_core ?msm) (TS example_series) = Inr (TS out)" and
    o2: "score (?on\<lparr>window_agg := False\<rparr>) (windowed_score_core ?msm)
             (TS example_series) = Inr (TS raw)" and
    o3: "len out = len example_series - nat (window ?on) + 1" and
    o4: "len raw = len example_series - nat (window ?on) + 1" and
    o5: "time_index out = drop (nat (window ?on) - 1) (time_index example_series)" and
    o6: "time_index raw = drop (nat (window ?on) - 1) (time_index example_series)" and
    o8: "1 < window ?on \<and> window_agg ?on \<longrightarrow>
              (\<forall>i<len raw. \<forall>c<width raw. \<forall>k<n_samples raw.
                 all_values out ! i ! c ! k =
                   (\<Sum>j = i..<min (i + nat (window ?on)) (len raw). all_values raw ! j ! c ! k)
                     / real (min (i + nat (window ?on)) (len raw) - i))"
    by blast
  have a: "score ?on (windowed_score_core ?msm) (TS example_series) = Inr (TS out)"
    "score ?off (windowed_score_core ?msm) (TS example_series) = Inr (TS raw)"
    "len out = 2" "len raw = 2" "time_index out = [1, 2]" "time_index raw = [1, 2]"
    using o1 o2 o3 o4 o5 o6 unfolding w l t by simp_all
  from a(2) e_off have raw: "raw = ?r" by simp
  then have pos: "0 < len raw" "0 < width raw" "0 < n_samples raw"
    by (simp_all add: len_def width_def n_samples_def)
  have "1 < window ?on \<and> window_agg ?on" unfolding w by simp
  with o8 have "\<forall>i<len raw. \<forall>c<width raw. \<forall>k<n_samples raw.
                 all_values out ! i ! c ! k =
                   (\<Sum>j = i..<min (i + nat (window ?on)) (len raw). all_values raw ! j ! c ! k)
                     / real (min (i + nat (window ?on)) (len raw) - i)"
    by (rule mp)
  with pos have "all_values out ! 0 ! 0 ! 0 =
                   (\<Sum>j = 0..<min (0 + nat (window ?on)) (len raw). all_values raw ! j ! 0 ! 0)
                     / real (min (0 + nat (window ?on)) (len raw) - 0)"
    by blast
  then have v: "all_values out ! 0 ! 0 ! 0 =
        (all_values raw ! 0 ! 0 ! 0 + all_values raw ! 1 ! 0 ! 0) / 2"
    unfolding w a(4) by (simp add: numeral_2_eq_2)
  have c: "\<exists>out raw.
           score ?cw (windowed_score_core ?msm) (TS ?two) = Inr (TS out) \<and>
           score (?cw\<lparr>window_agg := False\<rparr>) (windowed_score_core ?msm) (TS ?two) =
             Inr (TS raw) \<and>
           len out = len ?two - nat (window ?cw) + 1 \<and>
           len raw = len ?two - nat (window ?cw) + 1 \<and>
           time_index out = drop (nat (window ?cw) - 1) (time_index ?two) \<and>
           time_index raw = drop (nat (window ?cw) - 1) (time_index ?two) \<and>
           (\<not> (1 < window ?cw \<and> window_agg ?cw) \<longrightarrow> out = raw) \<and>
           (1 < window ?cw \<and> window_agg ?cw \<longrightarrow>
              (\<forall>i<len raw. \<forall>c<width raw. \<forall>k<n_samples raw.
                 all_values out ! i ! c ! k =
                   (\<Sum>j = i..<min (i + nat (window ?cw)) (len raw). all_values raw ! j ! c ! k)
                     / real (min (i + nat (window ?cw)) (len raw) - i)))"
    using wf(2) n(2) l(2) wd(2) msm
    by (intro score_length_windowed) (simp_all add: example_scorer_def)
  then obtain out2 where
    p1: "score ?cw (windowed_score_core ?msm) (TS ?two) = Inr (TS out2)" and
    p2: "len out2 = len ?two - nat (window ?cw) + 1" and
    p3: "time_index out2 = drop (nat (window ?cw) - 1) (time_index ?two)"
    by blast
  have c2: "score ?cw (windowed_score_core ?msm) (TS ?two) = Inr (TS out2)"
    "len out2 = 2" "time_index out2 = [1, 2]"
    using p1 p2 p3 unfolding w l t by simp_all
  show ?thesis
    using wf n(1) l(1) w(1,3) e_on e_off a v c2 by blast
qed

end
